theory Spec2Isabelle
  imports Complex_Main
begin

section \<open>Furnace controller: data model\<close>

text \<open>
  The Go program keeps one furnace state row in a store, advances it on a periodic
  simulation tick, and lets a control API start, stop and re-mode it. Numbers of type
  \<^verbatim>\<open>float64\<close> are read as real numbers (no rounding, no NaN, no infinities), except
  in the float64 reading of the cooling step, where the rounding is written out; Go's
  \<^verbatim>\<open>int\<close> is read as a mathematical integer.
\<close>

subsection \<open>Time\<close>

text \<open>
  A \<^verbatim>\<open>time.Time\<close> is an instant (nanoseconds since the zero time) together with a
  location. \<^verbatim>\<open>t.UTC()\<close> keeps the instant and sets the location to UTC;
  \<^verbatim>\<open>t.IsZero()\<close> looks at the instant only. A \<^verbatim>\<open>time.Duration\<close> is a count of
  nanoseconds in the signed 64-bit range, and \<^verbatim>\<open>t.Sub(u)\<close> saturates at its ends.
\<close>

datatype location = LocUTC | LocLocal | LocFixed string int

record time =
  ns :: int
  loc :: location

definition UTC :: "time \<Rightarrow> time" where
  "UTC t = t\<lparr>loc := LocUTC\<rparr>"

definition IsZero :: "time \<Rightarrow> bool" where
  "IsZero t = (ns t = 0)"

definition zeroTime :: time where
  "zeroTime = \<lparr>ns = 0, loc = LocUTC\<rparr>"

definition Millisecond :: int where
  "Millisecond = 1000000"

definition Second :: int where
  "Second = 1000000000"

definition minDuration :: int where
  "minDuration = - (2 ^ 63)"

definition maxDuration :: int where
  "maxDuration = 2 ^ 63 - 1"

definition Sub :: "time \<Rightarrow> time \<Rightarrow> int" where
  "Sub t u =
     (let d = ns t - ns u
      in if d < minDuration then minDuration
         else if maxDuration < d then maxDuration
         else d)"

definition Seconds :: "int \<Rightarrow> real" where
  "Seconds d = real_of_int d / 1000000000"

subsection \<open>Domain records\<close>

text \<open>\<^verbatim>\<open>ModeParams\<close> (response\_service.go): the argument of \<^verbatim>\<open>SetMode\<close>.\<close>

record ModeParams =
  Mode :: string
  TargetTempC :: real
  DurationSec :: int

text \<open>\<^verbatim>\<open>FurnaceState\<close>: the singleton device state.\<close>

record FurnaceState =
  ID :: int
  Mode :: string
  CurrentTempC :: real
  TargetTempC :: real
  RemainingSeconds :: int
  ErrorCodes :: "string list"
  IsRunning :: bool
  UpdatedAt :: time

text \<open>
  \<^verbatim>\<open>FurnaceEvent\<close>. The metadata, a \<^verbatim>\<open>map[string]any\<close> in Go, is an association list
  in the order of the source's map literal; an event built without metadata carries
  \<open>None\<close>. Event ids come from \<^verbatim>\<open>uuid.NewString()\<close>, read here as a supply of fresh
  numbers.
\<close>

datatype any = AString string | AFloat real | AInt int | ABool bool

record FurnaceEvent =
  EventID :: nat
  OccurredAt :: time
  Type :: string
  Description :: string
  Metadata :: "(string \<times> any) list option"

datatype error =
    errInvalidMode
  | errInvalidHeatCfg
  | errBelowAmbient real real
  | errExceedsMaxSafe real real
  | errNeverStarted
  | errStopped
  | errLoad
  | errSave
  | errAppend

definition zeroState :: FurnaceState where
  "zeroState =
     \<lparr>ID = 0, Mode = '''', CurrentTempC = 0, TargetTempC = 0, RemainingSeconds = 0,
      ErrorCodes = [], IsRunning = False, UpdatedAt = zeroTime\<rparr>"

subsection \<open>Simulation constants (simulator.go)\<close>

definition AmbientC :: real where "AmbientC = 25"
definition MaxSafeC :: real where "MaxSafeC = 1000"
definition RampUpCPerSec :: real where "RampUpCPerSec = 3"
definition RampDownCPerSec :: real where "RampDownCPerSec = 5"
definition StandbyCoolPerSec :: real where "StandbyCoolPerSec = 1 / 2"
definition SoakToleranceC :: real where "SoakToleranceC = 2"

definition ModeHeat :: string where "ModeHeat = ''HEAT''"
definition ModeCool :: string where "ModeCool = ''COOL''"
definition ModeStandby :: string where "ModeStandby = ''STANDBY''"

section \<open>The store and the event log\<close>

text \<open>
  The environment of the services. \<open>furnace_state\<close> is the single row of the table
  of that name (state\_repo.go; the row's id is the constant \<open>furnaceStateRowID\<close> in
  both statements, so it is not a column of the model), \<open>saves\<close> and \<open>events\<close> list the arguments of every
  call of \<^verbatim>\<open>StateRepo.Save\<close> and \<^verbatim>\<open>EventRepo.Append\<close> in call order (what the
  repository's test doubles record), \<open>clock\<close> is what \<^verbatim>\<open>time.Now()\<close> returns,
  \<open>uuid_next\<close> the next fresh event id, and the three flags make the corresponding
  repository call return an error.
\<close>

record state_row =
  mode :: string
  temp_c :: real
  target_c :: real
  remaining_s :: int
  errors :: "string list"
  running :: bool
  updated_at :: time

record world =
  furnace_state :: "state_row option"
  saves :: "FurnaceState list"
  events :: "FurnaceEvent list"
  clock :: time
  uuid_next :: nat
  loadErr :: bool
  saveErr :: bool
  appendErr :: bool

definition furnaceStateRowID :: int where
  "furnaceStateRowID = 1"

definition Now :: "world \<Rightarrow> time" where
  "Now w = clock w"

definition NewString :: "world \<Rightarrow> nat \<times> world" where
  "NewString w = (uuid_next w, w\<lparr>uuid_next := Suc (uuid_next w)\<rparr>)"

text \<open>
  The values that \<^verbatim>\<open>Save\<close> binds to the statement's placeholders, and the state that
  \<^verbatim>\<open>row.Scan\<close> fills in \<^verbatim>\<open>Load\<close>.
\<close>

definition rowOf :: "FurnaceState \<Rightarrow> time \<Rightarrow> state_row" where
  "rowOf state tsUTC =
     \<lparr>mode = Mode state, temp_c = CurrentTempC state, target_c = TargetTempC state,
      remaining_s = RemainingSeconds state, errors = ErrorCodes state,
      running = IsRunning state, updated_at = tsUTC\<rparr>"

definition scanRow :: "state_row \<Rightarrow> FurnaceState" where
  "scanRow r =
     \<lparr>ID = furnaceStateRowID, Mode = mode r, CurrentTempC = temp_c r,
      TargetTempC = target_c r, RemainingSeconds = remaining_s r,
      ErrorCodes = errors r, IsRunning = running r, UpdatedAt = updated_at r\<rparr>"

text \<open>\<^verbatim>\<open>StateSQLite.Save\<close>: upsert of the row, the timestamp persisted in UTC.\<close>

definition Save :: "FurnaceState \<Rightarrow> world \<Rightarrow> error option \<times> world" where
  "Save state w =
     (let tsUTC = (if IsZero (UpdatedAt state) then UTC (Now w) else UTC (UpdatedAt state));
          w1 = w\<lparr>saves := saves w @ [state]\<rparr>
      in if saveErr w then (Some errSave, w1)
         else (None, w1\<lparr>furnace_state := Some (rowOf state tsUTC)\<rparr>))"

text \<open>\<^verbatim>\<open>StateSQLite.Load\<close>: the zero state when there is no row.\<close>

definition Load :: "world \<Rightarrow> FurnaceState \<times> error option" where
  "Load w =
     (if loadErr w then (zeroState, Some errLoad)
      else case furnace_state w of
             None \<Rightarrow> (zeroState, None)
           | Some r \<Rightarrow>
               (let s = scanRow r
                in (s\<lparr>UpdatedAt := UTC (UpdatedAt s)\<rparr>, None)))"

text \<open>\<^verbatim>\<open>EventRepo.Append\<close>: the event is handed over; the flag decides the result.\<close>

definition Append :: "FurnaceEvent \<Rightarrow> world \<Rightarrow> error option \<times> world" where
  "Append e w =
     (if appendErr w then Some errAppend else None, w\<lparr>events := events w @ [e]\<rparr>)"

section \<open>The simulator (simulator.go)\<close>

definition maxFloat :: "real \<Rightarrow> real \<Rightarrow> real" where
  "maxFloat a b = (if a \<ge> b then a else b)"

fun hasString :: "string list \<Rightarrow> string \<Rightarrow> bool" where
  "hasString [] want = False"
| "hasString (s # ss) want = (if s = want then True else hasString ss want)"

text \<open>
  Go's conversion \<^verbatim>\<open>int(x)\<close> of a \<^verbatim>\<open>float64\<close> drops the fraction (rounds toward
  zero). For a value outside the 64-bit range Go leaves the result to the platform;
  \<open>go_int\<close> then still gives the mathematical integer. A tick stays inside the range,
  since \<open>Sub\<close> saturates.
\<close>

definition go_int :: "real \<Rightarrow> int" where
  "go_int x = (if 0 \<le> x then \<lfloor>x\<rfloor> else \<lceil>x\<rceil>)"

text \<open>
  The functions that take \<^verbatim>\<open>st *FurnaceState\<close> and return \<^verbatim>\<open>bool\<close> return the pair
  of the flag and the updated state; those that also append events thread the world.
  In \<open>driftToAmbient\<close> and \<open>handleCooling\<close> the new temperature is the exact
  difference; the flag does not depend on it. Their reading with rounded arithmetic is
  \<open>driftToAmbient64\<close> and \<open>handleCooling64\<close> below.
\<close>

definition driftToAmbient :: "FurnaceState \<Rightarrow> real \<Rightarrow> bool \<times> FurnaceState" where
  "driftToAmbient st elapsed =
     (if CurrentTempC st > AmbientC
      then (True, st\<lparr>CurrentTempC :=
                       maxFloat (CurrentTempC st - StandbyCoolPerSec * elapsed) AmbientC\<rparr>)
      else (False, st))"

definition handleCooling :: "FurnaceState \<Rightarrow> real \<Rightarrow> real \<Rightarrow> bool \<times> FurnaceState" where
  "handleCooling st elapsed ratePerSec =
     (if CurrentTempC st > AmbientC
      then (True, st\<lparr>CurrentTempC :=
                       maxFloat (CurrentTempC st - ratePerSec * elapsed) AmbientC\<rparr>)
      else (False, st))"

text \<open>
  \<^verbatim>\<open>handleHeat\<close>, in the source's three phases: the ramp (or the clamp of an
  overshoot), the soak countdown with the switch to COOL, and the result flag. The time
  to the target and the soak time are exact here; in \<^verbatim>\<open>float64\<close> their last bit can
  differ, which moves a soak time that is a whole number of seconds to just below it.
\<close>

definition heatRamp :: "FurnaceState \<Rightarrow> real \<Rightarrow> FurnaceState \<times> bool \<times> real" where
  "heatRamp st elapsed =
     (let prevTemp = CurrentTempC st
      in if prevTemp < TargetTempC st - SoakToleranceC then
           (let timeToTarget0 = (TargetTempC st - prevTemp) / RampUpCPerSec;
                timeToTarget = (if timeToTarget0 < 0 then 0 else timeToTarget0);
                temp0 = prevTemp + RampUpCPerSec * elapsed;
                temp = (if temp0 > TargetTempC st then TargetTempC st else temp0)
            in (st\<lparr>CurrentTempC := temp\<rparr>, temp \<noteq> prevTemp,
                if timeToTarget < elapsed then elapsed - timeToTarget else 0))
         else if CurrentTempC st > TargetTempC st
           then (st\<lparr>CurrentTempC := TargetTempC st\<rparr>, True, elapsed)
           else (st, False, elapsed))"

definition soakCountdown ::
  "world \<Rightarrow> FurnaceState \<Rightarrow> real \<Rightarrow> time \<Rightarrow> bool \<times> FurnaceState \<times> world" where
  "soakCountdown w st soakElapsed now =
     (if RemainingSeconds st > 0 \<and> soakElapsed > 0 then
        (let dec = go_int soakElapsed
         in if dec \<ge> 1 then
              (if RemainingSeconds st > dec
               then (True, st\<lparr>RemainingSeconds := RemainingSeconds st - dec\<rparr>, w)
               else (let st' = st\<lparr>RemainingSeconds := 0, Mode := ModeCool\<rparr>;
                         (eid, w1) = NewString w;
                         (_, w2) = Append
                           \<lparr>EventID = eid, OccurredAt = UTC now, Type = ''MODE_CHANGE'',
                            Description = ''Duration elapsed; switched to COOL'',
                            Metadata = Some [(''from'', AString ModeHeat),
                                             (''to'', AString ModeCool)]\<rparr> w1
                     in (True, st', w2)))
            else (False, st, w))
      else (False, st, w))"

definition handleHeat ::
  "world \<Rightarrow> FurnaceState \<Rightarrow> real \<Rightarrow> time \<Rightarrow> bool \<times> FurnaceState \<times> world" where
  "handleHeat w st elapsed now =
     (let (st1, tempChanged, soakElapsed) = heatRamp st elapsed;
          (changed, st2, w2) = soakCountdown w st1 soakElapsed now
      in (changed \<or> tempChanged, st2, w2))"

definition detectAndLogOverheat ::
  "world \<Rightarrow> FurnaceState \<Rightarrow> time \<Rightarrow> bool \<times> FurnaceState \<times> world" where
  "detectAndLogOverheat w st now =
     (if CurrentTempC st > MaxSafeC then
        (let (stateChanged, st1) =
               (if \<not> hasString (ErrorCodes st) ''OVERHEAT''
                then (True, st\<lparr>ErrorCodes := ErrorCodes st @ [''OVERHEAT'']\<rparr>)
                else (False, st));
             (eid, w1) = NewString w;
             (_, w2) = Append
               \<lparr>EventID = eid, OccurredAt = UTC now, Type = ''ERROR'',
                Description = ''Overheat detected'',
                Metadata = Some [(''temp_c'', AFloat (CurrentTempC st1)),
                                 (''max_safe'', AFloat MaxSafeC),
                                 (''mode'', AString (Mode st1)),
                                 (''isRunning'', ABool (IsRunning st1))]\<rparr> w1
         in (stateChanged, st1, w2))
      else (False, st, w))"

text \<open>
  The part of the loop body under the source's heading ``When running'': the switch on
  the mode (\<open>modeSwitch\<close>), then the overheat detection. \<open>whenRunning\<close> returns the
  loop's flag \<^verbatim>\<open>changed\<close>, the state and the world.
\<close>

definition modeSwitch ::
  "world \<Rightarrow> FurnaceState \<Rightarrow> real \<Rightarrow> time \<Rightarrow> bool \<times> FurnaceState \<times> world" where
  "modeSwitch w st elapsed now =
     (if Mode st = ModeHeat then handleHeat w st elapsed now
      else if Mode st = ModeCool then
        (let (c, s) = handleCooling st elapsed RampDownCPerSec in (c, s, w))
      else if Mode st = ModeStandby then
        (let (c, s) = handleCooling st elapsed StandbyCoolPerSec in (c, s, w))
      else
        (let (c, s) = handleCooling st elapsed StandbyCoolPerSec in (c, s, w)))"

definition whenRunning ::
  "world \<Rightarrow> FurnaceState \<Rightarrow> real \<Rightarrow> time \<Rightarrow> bool \<times> FurnaceState \<times> world" where
  "whenRunning w st elapsed now =
     (let (changed1, st1, w1) = modeSwitch w st elapsed now;
          (changed2, st2, w2) = detectAndLogOverheat w1 st1 now
      in (changed1 \<or> changed2, st2, w2))"

text \<open>
  One iteration of the loop of \<^verbatim>\<open>SimulatorService.Run\<close> for a timestamp \<open>now\<close>
  delivered by the ticker. The result of \<^verbatim>\<open>Save\<close> is discarded, as in the source.
\<close>

definition tick :: "time \<Rightarrow> world \<Rightarrow> world" where
  "tick now w =
     (case Load w of
        (st, Some err) \<Rightarrow> w
      | (st, None) \<Rightarrow>
          if ID st = 0 then
            snd (Save \<lparr>ID = 1, Mode = ModeStandby, CurrentTempC = AmbientC, TargetTempC = 0,
                       RemainingSeconds = 0, ErrorCodes = [], IsRunning = False,
                       UpdatedAt = UTC now\<rparr> w)
          else
            (let elapsed = Seconds (Sub now (UpdatedAt st))
             in if elapsed < 1 then w
                else if \<not> IsRunning st then
                  (let (changed, st1) = driftToAmbient st elapsed
                   in if changed then snd (Save (st1\<lparr>UpdatedAt := UTC now\<rparr>) w) else w)
                else
                  (let (changed, st2, w2) = whenRunning w st elapsed now
                   in if changed
                      then snd (Save (st2\<lparr>UpdatedAt := UTC now\<rparr>) w2)
                      else w2)))"

text \<open>
  \<^verbatim>\<open>Run\<close> over the timestamps the ticker delivers before the context is cancelled.
\<close>

fun Run :: "time list \<Rightarrow> world \<Rightarrow> world" where
  "Run [] w = w"
| "Run (now # ticks) w = Run ticks (tick now w)"

section \<open>The cooling step in float64\<close>








section \<open>The control API (FurnaceService)\<close>

text \<open>
  \<^verbatim>\<open>Start\<close>, \<^verbatim>\<open>Stop\<close> and \<^verbatim>\<open>SetMode\<close> return Go's \<^verbatim>\<open>error\<close> (\<open>None\<close> for
  \<^verbatim>\<open>nil\<close>) and the world they leave behind.
\<close>

definition Start :: "world \<Rightarrow> error option \<times> world" where
  "Start w =
     (let now = UTC (Now w)
      in case Load w of
           (st, Some err) \<Rightarrow> (Some err, w)
         | (st, None) \<Rightarrow>
             (let st1 = (if ID st = 0
                         then \<lparr>ID = 1, Mode = ''STANDBY'', CurrentTempC = 25, TargetTempC = 0,
                               RemainingSeconds = 0, ErrorCodes = [], IsRunning = True,
                               UpdatedAt = now\<rparr>
                         else st\<lparr>IsRunning := True, UpdatedAt := now\<rparr>)
              in case Save st1 w of
                   (Some err, w1) \<Rightarrow> (Some err, w1)
                 | (None, w1) \<Rightarrow>
                     (let (eid, w2) = NewString w1
                      in Append \<lparr>EventID = eid, OccurredAt = now, Type = ''START'',
                                 Description = ''Furnace started'', Metadata = None\<rparr> w2)))"

definition Stop :: "world \<Rightarrow> error option \<times> world" where
  "Stop w =
     (let now = UTC (Now w)
      in case Load w of
           (st, Some err) \<Rightarrow> (Some err, w)
         | (st, None) \<Rightarrow>
             (let st0 = (if ID st = 0 then st\<lparr>ID := 1\<rparr> else st);
                  st1 = st0\<lparr>IsRunning := False, Mode := ''STANDBY'', TargetTempC := 0,
                            RemainingSeconds := 0, UpdatedAt := now\<rparr>
              in case Save st1 w of
                   (Some err, w1) \<Rightarrow> (Some err, w1)
                 | (None, w1) \<Rightarrow>
                     (let (eid, w2) = NewString w1
                      in Append \<lparr>EventID = eid, OccurredAt = now, Type = ''STOP'',
                                 Description = ''Furnace stopped'', Metadata = None\<rparr> w2)))"

text \<open>The \<^verbatim>\<open>switch p.Mode\<close> at the head of \<^verbatim>\<open>SetMode\<close>: the validation error, if any.\<close>

definition validateMode :: "ModeParams \<Rightarrow> error option" where
  "validateMode p =
     (if ModeParams.Mode p = ''HEAT'' then
        (if \<not> (ModeParams.TargetTempC p > 0 \<and> DurationSec p > 0) then Some errInvalidHeatCfg
         else if ModeParams.TargetTempC p < AmbientC
           then Some (errBelowAmbient (ModeParams.TargetTempC p) AmbientC)
         else if ModeParams.TargetTempC p > MaxSafeC
           then Some (errExceedsMaxSafe (ModeParams.TargetTempC p) MaxSafeC)
         else None)
      else if ModeParams.Mode p = ''COOL'' \<or> ModeParams.Mode p = ''STANDBY'' then None
      else Some errInvalidMode)"

definition SetMode :: "ModeParams \<Rightarrow> world \<Rightarrow> error option \<times> world" where
  "SetMode p w =
     (let now = UTC (Now w)
      in case validateMode p of
           Some err \<Rightarrow> (Some err, w)
         | None \<Rightarrow>
             (case Load w of
                (st, Some err) \<Rightarrow> (Some err, w)
              | (st, None) \<Rightarrow>
                  if ID st = 0 then (Some errNeverStarted, w)
                  else if \<not> IsRunning st then (Some errStopped, w)
                  else
                    (let st1 = st\<lparr>Mode := ModeParams.Mode p\<rparr>;
                         st2 = (if ModeParams.Mode p = ''HEAT''
                                then st1\<lparr>TargetTempC := ModeParams.TargetTempC p,
                                         RemainingSeconds := DurationSec p\<rparr>
                                else st1\<lparr>TargetTempC := 0, RemainingSeconds := 0\<rparr>);
                         st3 = st2\<lparr>UpdatedAt := now\<rparr>
                     in case Save st3 w of
                          (Some err, w1) \<Rightarrow> (Some err, w1)
                        | (None, w1) \<Rightarrow>
                            (let (eid, w2) = NewString w1
                             in Append
                                  \<lparr>EventID = eid, OccurredAt = now, Type = ''MODE_CHANGE'',
                                   Description = ''Mode changed to '' @ ModeParams.Mode p,
                                   Metadata = Some
                                     [(''target_temp_c'', AFloat (TargetTempC st3)),
                                      (''duration_sec'', AInt (RemainingSeconds st3)),
                                      (''is_running'', ABool (IsRunning st3))]\<rparr> w2))))"

section \<open>Monitoring (monitoring.go)\<close>

definition modeStandby :: string where "modeStandby = ''STANDBY''"
definition defaultAmbientTempC :: real where "defaultAmbientTempC = 25"

definition toUTC :: "time \<Rightarrow> time" where
  "toUTC t = (if IsZero t then t else UTC t)"

definition baselineState :: "world \<Rightarrow> FurnaceState" where
  "baselineState w =
     \<lparr>ID = 1, Mode = modeStandby, CurrentTempC = defaultAmbientTempC, TargetTempC = 0,
      RemainingSeconds = 0, ErrorCodes = [], IsRunning = False, UpdatedAt = UTC (Now w)\<rparr>"

text \<open>
  \<^verbatim>\<open>MonitoringService\<close> reads through the \<^verbatim>\<open>StateRepo\<close> interface it was built
  with. The repository's \<^verbatim>\<open>Load\<close> is the parameter \<open>stateRepoLoad\<close>: it is \<open>Load\<close> for
  the SQLite store, and a function returning a fixed answer for a stub such as the one
  of the service's tests.
\<close>

definition GetState ::
  "(world \<Rightarrow> FurnaceState \<times> error option) \<Rightarrow> world \<Rightarrow> FurnaceState \<times> error option" where
  "GetState stateRepoLoad w =
     (case stateRepoLoad w of
        (state, Some err) \<Rightarrow> (zeroState, Some err)
      | (state, None) \<Rightarrow>
          if ID state = 0 then (baselineState w, None)
          else (state\<lparr>UpdatedAt := toUTC (UpdatedAt state)\<rparr>, None))"

section \<open>Streaming interval (websockets.go)\<close>

definition defaultInterval :: int where "defaultInterval = 1 * Second"
definition maxInterval :: int where "maxInterval = 10 * Second"
definition maxIntervalMilli :: int where "maxIntervalMilli = 10000"

text \<open>
  The request's query string as the list of its key/value pairs;
  \<^verbatim>\<open>c.Query(key)\<close> is the first value of the key, or the empty string.
\<close>

definition Query :: "(string \<times> string) list \<Rightarrow> string \<Rightarrow> string" where
  "Query q key = (case map_of q key of Some v \<Rightarrow> v | None \<Rightarrow> '''')"

text \<open>
  \<^verbatim>\<open>parseInterval\<close>. The two parsers of Go's standard library,
  \<^verbatim>\<open>time.ParseDuration\<close> and \<^verbatim>\<open>strconv.Atoi\<close>, are parameters: each returns the
  parsed number or fails.
\<close>

definition parseInterval ::
  "(string \<Rightarrow> int option) \<Rightarrow> (string \<Rightarrow> int option) \<Rightarrow> (string \<times> string) list \<Rightarrow> int" where
  "parseInterval ParseDuration Atoi c =
     (let interval = defaultInterval;
          s = Query c ''interval'';
          viaString =
            (if s \<noteq> '''' then
               (case ParseDuration s of
                  Some d \<Rightarrow> if d > 0 \<and> d \<le> maxInterval then Some d else None
                | None \<Rightarrow> None)
             else None)
      in case viaString of
           Some d \<Rightarrow> d
         | None \<Rightarrow>
             (let ms = Query c ''interval_ms''
              in if ms \<noteq> '''' then
                   (case Atoi ms of
                      Some v \<Rightarrow>
                        if v > 0 \<and> v \<le> maxIntervalMilli then v * Millisecond else interval
                    | None \<Rightarrow> interval)
                 else interval))"

subsection \<open>The standard library's parsers\<close>

text \<open>
  Executable readings of \<^verbatim>\<open>strconv.Atoi\<close> and \<^verbatim>\<open>time.ParseDuration\<close>, to run
  \<open>parseInterval\<close> on concrete requests. \<open>Atoi\<close> accepts an optional sign and at least
  one decimal digit, within the 64-bit range. \<open>ParseDuration\<close> follows the library's
  loop over the components \<^verbatim>\<open>[0-9]*(\.[0-9]*)?unit\<close> (one turn of it is
  \<open>durationComponent\<close>) on unsigned 64-bit numbers;
  the fraction's contribution, which the library computes in \<^verbatim>\<open>float64\<close>, is the exact
  quotient rounded down, and the loop's fuel is the length of the string, of which
  every turn consumes at least one character.
\<close>

definition isDigit :: "char \<Rightarrow> bool" where
  "isDigit c = (let n = (of_char c :: int) in 48 \<le> n \<and> n \<le> 57)"

definition digitVal :: "char \<Rightarrow> int" where
  "digitVal c = of_char c - 48"

definition Atoi :: "string \<Rightarrow> int option" where
  "Atoi s =
     (let neg = (s \<noteq> [] \<and> hd s = CHR ''-'');
          body = (if s \<noteq> [] \<and> (hd s = CHR ''-'' \<or> hd s = CHR ''+'') then tl s else s)
      in if body = [] \<or> \<not> list_all isDigit body then None
         else (let n = foldl (\<lambda>x ch. x * 10 + digitVal ch) 0 body;
                   v = (if neg then - n else n)
               in if - (2 ^ 63) \<le> v \<and> v \<le> 2 ^ 63 - 1 then Some v else None))"

fun leadingInt :: "int \<Rightarrow> string \<Rightarrow> (int \<times> string) option" where
  "leadingInt x [] = Some (x, [])"
| "leadingInt x (c # s) =
     (if \<not> isDigit c then Some (x, c # s)
      else if x > 2 ^ 63 div 10 then None
      else (let y = x * 10 + digitVal c
            in if y > 2 ^ 63 then None else leadingInt y s))"

fun leadingFraction :: "int \<Rightarrow> int \<Rightarrow> bool \<Rightarrow> string \<Rightarrow> int \<times> int \<times> string" where
  "leadingFraction x scale overflow [] = (x, scale, [])"
| "leadingFraction x scale overflow (c # s) =
     (if \<not> isDigit c then (x, scale, c # s)
      else if overflow then leadingFraction x scale overflow s
      else if x > (2 ^ 63 - 1) div 10 then leadingFraction x scale True s
      else (let y = x * 10 + digitVal c
            in if y > 2 ^ 63 then leadingFraction x scale True s
               else leadingFraction y (scale * 10) False s))"

definition unitMap :: "string \<Rightarrow> int option" where
  "unitMap u =
     map_of [(''ns'', 1), (''us'', 1000),
             ([CHR 0xC2, CHR 0xB5, CHR ''s''], 1000), ([CHR 0xCE, CHR 0xBC, CHR ''s''], 1000),
             (''ms'', 1000000), (''s'', 1000000000), (''m'', 60000000000),
             (''h'', 3600000000000)] u"

definition unitChar :: "char \<Rightarrow> bool" where
  "unitChar c = (\<not> (c = CHR ''.'' \<or> isDigit c))"

definition durationComponent :: "string \<Rightarrow> (int \<times> string) option" where
  "durationComponent s =
     (if s = [] \<or> \<not> (hd s = CHR ''.'' \<or> isDigit (hd s)) then None
      else case leadingInt 0 s of
             None \<Rightarrow> None
           | Some (v, s1) \<Rightarrow>
               (let pre = (length s1 \<noteq> length s);
                    (f, scale, post, s2) =
                      (if s1 \<noteq> [] \<and> hd s1 = CHR ''.''
                       then (let (f, scale, r) = leadingFraction 0 1 False (tl s1)
                             in (f, scale, length r \<noteq> length (tl s1), r))
                       else (0, 1, False, s1))
                in if \<not> pre \<and> \<not> post then None
                   else (let u = takeWhile unitChar s2; s3 = dropWhile unitChar s2
                         in if u = [] then None
                            else case unitMap u of
                                   None \<Rightarrow> None
                                 | Some unit \<Rightarrow>
                                     if v > 2 ^ 63 div unit then None
                                     else (let v1 = v * unit;
                                               v2 = (if f > 0 then v1 + (f * unit) div scale
                                                     else v1)
                                           in if f > 0 \<and> v2 > 2 ^ 63 then None
                                              else Some (v2, s3)))))"

fun durationLoop :: "nat \<Rightarrow> int \<Rightarrow> string \<Rightarrow> int option" where
  "durationLoop fuel d [] = Some d"
| "durationLoop 0 d (c # s) = None"
| "durationLoop (Suc fuel) d (c # s) =
     (case durationComponent (c # s) of
        None \<Rightarrow> None
      | Some (v, s3) \<Rightarrow>
          (let d1 = (d + v) mod 2 ^ 64
           in if d1 > 2 ^ 63 then None else durationLoop fuel d1 s3))"

definition ParseDuration :: "string \<Rightarrow> int option" where
  "ParseDuration s =
     (let neg = (s \<noteq> [] \<and> hd s = CHR ''-'');
          s1 = (if s \<noteq> [] \<and> (hd s = CHR ''-'' \<or> hd s = CHR ''+'') then tl s else s)
      in if s1 = ''0'' then Some 0
         else if s1 = [] then None
         else case durationLoop (length s1) 0 s1 of
                None \<Rightarrow> None
              | Some d \<Rightarrow>
                  if neg then Some (- d)
                  else if d > 2 ^ 63 - 1 then None
                  else Some d)"

section \<open>Example worlds\<close>

text \<open>
  Concrete environments on which the theorems below are instantiated: an empty store
  with a working database, and the same store holding a given row.
\<close>

definition exampleClock :: time where
  "exampleClock = \<lparr>ns = 1000000000000, loc = LocLocal\<rparr>"

definition emptyWorld :: world where
  "emptyWorld =
     \<lparr>furnace_state = None, saves = [], events = [], clock = exampleClock, uuid_next = 0,
      loadErr = False, saveErr = False, appendErr = False\<rparr>"

definition worldWith :: "state_row \<Rightarrow> world" where
  "worldWith r = emptyWorld\<lparr>furnace_state := Some r\<rparr>"

definition exampleRow :: "string \<Rightarrow> real \<Rightarrow> real \<Rightarrow> int \<Rightarrow> bool \<Rightarrow> state_row" where
  "exampleRow m temp target remaining run =
     \<lparr>mode = m, temp_c = temp, target_c = target, remaining_s = remaining, errors = [],
      running = run, updated_at = UTC exampleClock\<rparr>"

definition after :: "int \<Rightarrow> time" where
  "after d = exampleClock\<lparr>ns := ns exampleClock + d\<rparr>"

section \<open>Notions used in the statements\<close>

text \<open>
  The events handed to the log between two worlds, the events of one type among a list,
  the two events the simulator builds, and a state with the overheat code set.
\<close>

definition newEvents :: "world \<Rightarrow> world \<Rightarrow> FurnaceEvent list" where
  "newEvents w w' = drop (length (events w)) (events w')"

definition ofType :: "string \<Rightarrow> FurnaceEvent list \<Rightarrow> FurnaceEvent list" where
  "ofType ty es = filter (\<lambda>e. Type e = ty) es"

definition overheatEvent :: "nat \<Rightarrow> time \<Rightarrow> FurnaceState \<Rightarrow> FurnaceEvent" where
  "overheatEvent eid now st =
     \<lparr>EventID = eid, OccurredAt = UTC now, Type = ''ERROR'',
      Description = ''Overheat detected'',
      Metadata = Some [(''temp_c'', AFloat (CurrentTempC st)),
                       (''max_safe'', AFloat MaxSafeC),
                       (''mode'', AString (Mode st)),
                       (''isRunning'', ABool (IsRunning st))]\<rparr>"

definition coolEvent :: "nat \<Rightarrow> time \<Rightarrow> FurnaceEvent" where
  "coolEvent eid now =
     \<lparr>EventID = eid, OccurredAt = UTC now, Type = ''MODE_CHANGE'',
      Description = ''Duration elapsed; switched to COOL'',
      Metadata = Some [(''from'', AString ''HEAT''), (''to'', AString ''COOL'')]\<rparr>"

definition flagged :: "FurnaceState \<Rightarrow> FurnaceState" where
  "flagged st =
     (if ''OVERHEAT'' \<in> set (ErrorCodes st) then st
      else st\<lparr>ErrorCodes := ErrorCodes st @ [''OVERHEAT'']\<rparr>)"

section \<open>Basic facts\<close>

lemmas sim_consts =
  AmbientC_def MaxSafeC_def RampUpCPerSec_def RampDownCPerSec_def StandbyCoolPerSec_def
  SoakToleranceC_def ModeHeat_def ModeCool_def ModeStandby_def

lemmas interval_consts =
  defaultInterval_def maxInterval_def maxIntervalMilli_def Second_def Millisecond_def

lemmas example_defs = exampleClock_def emptyWorld_def worldWith_def exampleRow_def after_def

lemma Load_empty: "\<not> loadErr w \<Longrightarrow> furnace_state w = None \<Longrightarrow> Load w = (zeroState, None)"
  by (simp add: Load_def)

lemma Load_row:
  "\<not> loadErr w \<Longrightarrow> furnace_state w = Some r \<Longrightarrow>
   Load w = ((scanRow r)\<lparr>UpdatedAt := UTC (updated_at r)\<rparr>, None)"
  by (simp add: Load_def scanRow_def)

lemma UTC_explicit: "UTC t = \<lparr>ns = ns t, loc = LocUTC\<rparr>"
  by (simp add: UTC_def)

section \<open>Reading the state\<close>

text \<open>
  Claim C8. Whatever repository \<open>GetState\<close> reads through: when the repository
  answers with the zero state (nothing persisted), the result is the fixed baseline (id
  1, STANDBY, 25 degrees, no target, no remaining time, no error codes, not running)
  stamped with the current clock reading in UTC; when it answers with a state of
  non-zero id, the result is that state with its timestamp moved to UTC, the instant
  kept, every other field untouched; a zero timestamp is returned as it is. Read through
  the SQLite store: on an empty table the baseline, on a persisted row that row's fields
  under id 1 with the timestamp in UTC.
\<close>

theorem GetState_baseline_or_persisted:
  "(load w = (state, None) \<and> ID state = 0 \<longrightarrow>
      GetState load w =
        (\<lparr>ID = 1, Mode = ''STANDBY'', CurrentTempC = 25, TargetTempC = 0,
          RemainingSeconds = 0, ErrorCodes = [], IsRunning = False,
          UpdatedAt = \<lparr>ns = ns (clock w), loc = LocUTC\<rparr>\<rparr>, None))
   \<and> (load w = (state, None) \<and> ID state \<noteq> 0 \<and> ns (UpdatedAt state) \<noteq> 0 \<longrightarrow>
      GetState load w =
        (state\<lparr>UpdatedAt := \<lparr>ns = ns (UpdatedAt state), loc = LocUTC\<rparr>\<rparr>, None))
   \<and> (load w = (state, None) \<and> ID state \<noteq> 0 \<and> ns (UpdatedAt state) = 0 \<longrightarrow>
      GetState load w = (state, None))
   \<and> (\<not> loadErr w \<and> furnace_state w = None \<longrightarrow>
      GetState Load w =
        (\<lparr>ID = 1, Mode = ''STANDBY'', CurrentTempC = 25, TargetTempC = 0,
          RemainingSeconds = 0, ErrorCodes = [], IsRunning = False,
          UpdatedAt = \<lparr>ns = ns (clock w), loc = LocUTC\<rparr>\<rparr>, None))
   \<and> (\<not> loadErr w \<and> furnace_state w = Some r \<longrightarrow>
      GetState Load w =
        (\<lparr>ID = 1, Mode = mode r, CurrentTempC = temp_c r, TargetTempC = target_c r,
          RemainingSeconds = remaining_s r, ErrorCodes = errors r, IsRunning = running r,
          UpdatedAt = \<lparr>ns = ns (updated_at r), loc = LocUTC\<rparr>\<rparr>, None))"
proof (intro conjI impI)
  assume "load w = (state, None) \<and> ID state = 0"
  then show "GetState load w =
        (\<lparr>ID = 1, Mode = ''STANDBY'', CurrentTempC = 25, TargetTempC = 0,
          RemainingSeconds = 0, ErrorCodes = [], IsRunning = False,
          UpdatedAt = \<lparr>ns = ns (clock w), loc = LocUTC\<rparr>\<rparr>, None)"
    by (simp add: GetState_def baselineState_def modeStandby_def defaultAmbientTempC_def
        Now_def UTC_explicit)
next
  assume "load w = (state, None) \<and> ID state \<noteq> 0 \<and> ns (UpdatedAt state) \<noteq> 0"
  then show "GetState load w =
        (state\<lparr>UpdatedAt := \<lparr>ns = ns (UpdatedAt state), loc = LocUTC\<rparr>\<rparr>, None)"
    by (simp add: GetState_def toUTC_def IsZero_def UTC_explicit)
next
  assume "load w = (state, None) \<and> ID state \<noteq> 0 \<and> ns (UpdatedAt state) = 0"
  then show "GetState load w = (state, None)"
    by (simp add: GetState_def toUTC_def IsZero_def)
next
  assume "\<not> loadErr w \<and> furnace_state w = None"
  then have "Load w = (zeroState, None)" by (simp add: Load_empty)
  then show "GetState Load w =
        (\<lparr>ID = 1, Mode = ''STANDBY'', CurrentTempC = 25, TargetTempC = 0,
          RemainingSeconds = 0, ErrorCodes = [], IsRunning = False,
          UpdatedAt = \<lparr>ns = ns (clock w), loc = LocUTC\<rparr>\<rparr>, None)"
    by (simp add: GetState_def zeroState_def baselineState_def modeStandby_def
        defaultAmbientTempC_def Now_def UTC_explicit)
next
  assume "\<not> loadErr w \<and> furnace_state w = Some r"
  then have "Load w = ((scanRow r)\<lparr>UpdatedAt := UTC (updated_at r)\<rparr>, None)"
    by (simp add: Load_row)
  then show "GetState Load w =
        (\<lparr>ID = 1, Mode = mode r, CurrentTempC = temp_c r, TargetTempC = target_c r,
          RemainingSeconds = remaining_s r, ErrorCodes = errors r, IsRunning = running r,
          UpdatedAt = \<lparr>ns = ns (updated_at r), loc = LocUTC\<rparr>\<rparr>, None)"
    by (simp add: GetState_def scanRow_def furnaceStateRowID_def toUTC_def IsZero_def
        UTC_explicit)
qed

text \<open>
  The instances: a stub repository answering with a HEAT state stamped in a zone three
  hours west of UTC, the same stub with a zero timestamp, a stub answering with nothing
  persisted, and the SQLite store empty and holding a row.
\<close>

theorem GetState_baseline_or_persisted_witness:
  "GetState (\<lambda>_. (\<lparr>ID = 1, Mode = ''HEAT'', CurrentTempC = 1234 / 10, TargetTempC = 200,
                     RemainingSeconds = 0, ErrorCodes = [], IsRunning = False,
                     UpdatedAt = \<lparr>ns = 5, loc = LocFixed ''X'' (- 10800)\<rparr>\<rparr>, None))
      emptyWorld =
     (\<lparr>ID = 1, Mode = ''HEAT'', CurrentTempC = 1234 / 10, TargetTempC = 200,
       RemainingSeconds = 0, ErrorCodes = [], IsRunning = False,
       UpdatedAt = \<lparr>ns = 5, loc = LocUTC\<rparr>\<rparr>, None)
   \<and> GetState (\<lambda>_. (\<lparr>ID = 1, Mode = ''COOL'', CurrentTempC = 20, TargetTempC = 10,
                     RemainingSeconds = 0, ErrorCodes = [], IsRunning = False,
                     UpdatedAt = zeroTime\<rparr>, None))
      emptyWorld =
     (\<lparr>ID = 1, Mode = ''COOL'', CurrentTempC = 20, TargetTempC = 10,
       RemainingSeconds = 0, ErrorCodes = [], IsRunning = False,
       UpdatedAt = zeroTime\<rparr>, None)
   \<and> GetState (\<lambda>_. (zeroState, None)) emptyWorld =
     (\<lparr>ID = 1, Mode = ''STANDBY'', CurrentTempC = 25, TargetTempC = 0,
       RemainingSeconds = 0, ErrorCodes = [], IsRunning = False,
       UpdatedAt = \<lparr>ns = 1000000000000, loc = LocUTC\<rparr>\<rparr>, None)
   \<and> GetState Load emptyWorld =
     (\<lparr>ID = 1, Mode = ''STANDBY'', CurrentTempC = 25, TargetTempC = 0,
       RemainingSeconds = 0, ErrorCodes = [], IsRunning = False,
       UpdatedAt = \<lparr>ns = 1000000000000, loc = LocUTC\<rparr>\<rparr>, None)
   \<and> GetState Load (worldWith \<lparr>mode = ''HEAT'', temp_c = 700, target_c = 800,
                                remaining_s = 60, errors = [''OVERHEAT''], running = True,
                                updated_at = \<lparr>ns = 5, loc = LocLocal\<rparr>\<rparr>) =
     (\<lparr>ID = 1, Mode = ''HEAT'', CurrentTempC = 700, TargetTempC = 800,
       RemainingSeconds = 60, ErrorCodes = [''OVERHEAT''], IsRunning = True,
       UpdatedAt = \<lparr>ns = 5, loc = LocUTC\<rparr>\<rparr>, None)"
proof -
  let ?a = "\<lparr>ID = 1, Mode = ''HEAT'', CurrentTempC = 1234 / 10, TargetTempC = 200,
             RemainingSeconds = 0, ErrorCodes = [], IsRunning = False,
             UpdatedAt = \<lparr>ns = 5, loc = LocFixed ''X'' (- 10800)\<rparr>\<rparr>"
  let ?b = "\<lparr>ID = 1, Mode = ''COOL'', CurrentTempC = 20, TargetTempC = 10,
             RemainingSeconds = 0, ErrorCodes = [], IsRunning = False,
             UpdatedAt = zeroTime\<rparr>"
  let ?r = "\<lparr>mode = ''HEAT'', temp_c = 700, target_c = 800, remaining_s = 60,
             errors = [''OVERHEAT''], running = True,
             updated_at = \<lparr>ns = 5, loc = LocLocal\<rparr>\<rparr>"
  have c: "ns (clock emptyWorld) = 1000000000000" "\<not> loadErr emptyWorld"
    "furnace_state emptyWorld = None" "\<not> loadErr (worldWith ?r)"
    "furnace_state (worldWith ?r) = Some ?r"
    by (simp_all add: example_defs)
  have "GetState (\<lambda>_. (?a, None)) emptyWorld =
      (?a\<lparr>UpdatedAt := \<lparr>ns = 5, loc = LocUTC\<rparr>\<rparr>, None)"
    using GetState_baseline_or_persisted
      [where load = "\<lambda>_. (?a, None)" and w = emptyWorld and state = ?a]
    by simp
  moreover have "GetState (\<lambda>_. (?b, None)) emptyWorld = (?b, None)"
    using GetState_baseline_or_persisted
      [where load = "\<lambda>_. (?b, None)" and w = emptyWorld and state = ?b]
    by (simp add: zeroTime_def)
  moreover have "GetState (\<lambda>_. (zeroState, None)) emptyWorld =
      (\<lparr>ID = 1, Mode = ''STANDBY'', CurrentTempC = 25, TargetTempC = 0,
        RemainingSeconds = 0, ErrorCodes = [], IsRunning = False,
        UpdatedAt = \<lparr>ns = 1000000000000, loc = LocUTC\<rparr>\<rparr>, None)"
    using GetState_baseline_or_persisted
      [where load = "\<lambda>_. (zeroState, None)" and w = emptyWorld and state = zeroState] c(1)
    by (simp add: zeroState_def)
  moreover have "GetState Load emptyWorld =
      (\<lparr>ID = 1, Mode = ''STANDBY'', CurrentTempC = 25, TargetTempC = 0,
        RemainingSeconds = 0, ErrorCodes = [], IsRunning = False,
        UpdatedAt = \<lparr>ns = 1000000000000, loc = LocUTC\<rparr>\<rparr>, None)"
    using GetState_baseline_or_persisted [where w = emptyWorld] c(1,2,3) by simp
  moreover have "GetState Load (worldWith ?r) =
      (\<lparr>ID = 1, Mode = ''HEAT'', CurrentTempC = 700, TargetTempC = 800,
        RemainingSeconds = 60, ErrorCodes = [''OVERHEAT''], IsRunning = True,
        UpdatedAt = \<lparr>ns = 5, loc = LocUTC\<rparr>\<rparr>, None)"
    using GetState_baseline_or_persisted [where w = "worldWith ?r" and r = ?r] c(4,5)
    by simp
  ultimately show ?thesis by simp
qed

section \<open>Streaming interval resolution\<close>

lemma ParseDuration_2s: "ParseDuration ''2s'' = Some 2000000000"
  by code_simp

lemma ParseDuration_20s: "ParseDuration ''20s'' = Some 20000000000"
  by code_simp

lemma ParseDuration_bogus: "ParseDuration ''bogus'' = None"
  by code_simp

lemma Atoi_250: "Atoi ''250'' = Some 250"
  by code_simp

lemma Atoi_NaN: "Atoi ''NaN'' = None"
  by code_simp

text \<open>
  Claim C7. For any behaviour of the two library parsers: a non-empty duration string
  that parses to a duration in (0, 10s] is the result; when the duration string is
  empty, unparsable or out of that range, a non-empty millisecond string that parses to
  an integer in (0, 10000] gives that many milliseconds; when that one too is empty,
  unparsable or out of range, the result is one second. With the library's parsers,
  \<^verbatim>\<open>interval=2s&interval_ms=150\<close> gives 2s, \<^verbatim>\<open>interval=bogus&interval_ms=250\<close>
  gives 250ms and a request without parameters gives 1s.
\<close>

theorem parseInterval_resolution:
  "(Query c ''interval'' \<noteq> '''' \<and> pd (Query c ''interval'') = Some d \<and> 0 < d \<and> d \<le> 10 * Second
      \<longrightarrow> parseInterval pd atoi c = d)
   \<and> ((Query c ''interval'' = '''' \<or> pd (Query c ''interval'') = None
        \<or> (\<exists>d'. pd (Query c ''interval'') = Some d' \<and> \<not> (0 < d' \<and> d' \<le> 10 * Second)))
       \<longrightarrow>
         (Query c ''interval_ms'' \<noteq> '''' \<and> atoi (Query c ''interval_ms'') = Some v
            \<and> 0 < v \<and> v \<le> 10000
          \<longrightarrow> parseInterval pd atoi c = v * Millisecond)
       \<and> ((Query c ''interval_ms'' = '''' \<or> atoi (Query c ''interval_ms'') = None
            \<or> (\<exists>v'. atoi (Query c ''interval_ms'') = Some v' \<and> \<not> (0 < v' \<and> v' \<le> 10000)))
           \<longrightarrow> parseInterval pd atoi c = 1 * Second))
   \<and> parseInterval ParseDuration Atoi [(''interval'', ''2s''), (''interval_ms'', ''150'')]
       = 2 * Second
   \<and> parseInterval ParseDuration Atoi [(''interval'', ''bogus''), (''interval_ms'', ''250'')]
       = 250 * Millisecond
   \<and> parseInterval ParseDuration Atoi [] = 1 * Second"
proof (intro conjI)
  show "Query c ''interval'' \<noteq> '''' \<and> pd (Query c ''interval'') = Some d \<and> 0 < d \<and> d \<le> 10 * Second
      \<longrightarrow> parseInterval pd atoi c = d"
    by (simp add: parseInterval_def Let_def interval_consts)
next
  show "(Query c ''interval'' = '''' \<or> pd (Query c ''interval'') = None
        \<or> (\<exists>d'. pd (Query c ''interval'') = Some d' \<and> \<not> (0 < d' \<and> d' \<le> 10 * Second)))
       \<longrightarrow>
         (Query c ''interval_ms'' \<noteq> '''' \<and> atoi (Query c ''interval_ms'') = Some v
            \<and> 0 < v \<and> v \<le> 10000
          \<longrightarrow> parseInterval pd atoi c = v * Millisecond)
       \<and> ((Query c ''interval_ms'' = '''' \<or> atoi (Query c ''interval_ms'') = None
            \<or> (\<exists>v'. atoi (Query c ''interval_ms'') = Some v' \<and> \<not> (0 < v' \<and> v' \<le> 10000)))
           \<longrightarrow> parseInterval pd atoi c = 1 * Second)"
    by (auto simp: parseInterval_def Let_def interval_consts split: option.splits)
next
  show "parseInterval ParseDuration Atoi [(''interval'', ''2s''), (''interval_ms'', ''150'')]
       = 2 * Second"
    by (simp add: parseInterval_def Query_def ParseDuration_2s interval_consts)
next
  show "parseInterval ParseDuration Atoi [(''interval'', ''bogus''), (''interval_ms'', ''250'')]
       = 250 * Millisecond"
    by (simp add: parseInterval_def Query_def ParseDuration_bogus Atoi_250 interval_consts)
next
  show "parseInterval ParseDuration Atoi [] = 1 * Second"
    by (simp add: parseInterval_def Query_def interval_consts)
qed

theorem parseInterval_resolution_witness:
  "parseInterval ParseDuration Atoi [(''interval'', ''2s''), (''interval_ms'', ''250'')]
     = 2000000000
   \<and> parseInterval ParseDuration Atoi [(''interval'', ''20s''), (''interval_ms'', ''250'')]
     = 250000000
   \<and> parseInterval ParseDuration Atoi [(''interval'', ''20s''), (''interval_ms'', ''NaN'')]
     = 1000000000"
proof -
  let ?c1 = "[(''interval'', ''2s''), (''interval_ms'', ''250'')]"
  let ?c2 = "[(''interval'', ''20s''), (''interval_ms'', ''250'')]"
  let ?c3 = "[(''interval'', ''20s''), (''interval_ms'', ''NaN'')]"
  have q1: "Query ?c1 ''interval'' = ''2s''"
    and q2: "Query ?c2 ''interval'' = ''20s''" "Query ?c2 ''interval_ms'' = ''250''"
    and q3: "Query ?c3 ''interval'' = ''20s''" "Query ?c3 ''interval_ms'' = ''NaN''"
    by (simp_all add: Query_def)
  have "parseInterval ParseDuration Atoi ?c1 = 2000000000"
    using parseInterval_resolution [where c = ?c1 and pd = ParseDuration and atoi = Atoi
        and d = 2000000000]
    by (simp add: q1 ParseDuration_2s Second_def)
  moreover have "parseInterval ParseDuration Atoi ?c2 = 250000000"
    using parseInterval_resolution [where c = ?c2 and pd = ParseDuration and atoi = Atoi
        and v = 250]
    by (simp add: q2 ParseDuration_20s Atoi_250 Second_def Millisecond_def)
  moreover have "parseInterval ParseDuration Atoi ?c3 = 1000000000"
    using parseInterval_resolution [where c = ?c3 and pd = ParseDuration and atoi = Atoi]
    by (simp add: q3 ParseDuration_20s Atoi_NaN Second_def)
  ultimately show ?thesis by simp
qed

section \<open>The simulator's steps\<close>

lemma hasString_iff: "hasString ss want = (want \<in> set ss)"
  by (induction ss) auto

lemma Save_frame:
  "loadErr (snd (Save s w)) = loadErr w" "saveErr (snd (Save s w)) = saveErr w"
  "appendErr (snd (Save s w)) = appendErr w" "events (snd (Save s w)) = events w"
  "clock (snd (Save s w)) = clock w" "uuid_next (snd (Save s w)) = uuid_next w"
  "saves (snd (Save s w)) = saves w @ [s]"
  by (simp_all add: Save_def Let_def)

lemma Save_row:
  "\<not> saveErr w \<Longrightarrow>
   furnace_state (snd (Save s w)) =
     Some (rowOf s (if IsZero (UpdatedAt s) then UTC (clock w) else UTC (UpdatedAt s)))"
  by (simp add: Save_def Let_def Now_def)

lemma Save_row_fail: "saveErr w \<Longrightarrow> furnace_state (snd (Save s w)) = furnace_state w"
  by (simp add: Save_def Let_def)

lemma rowOf_sel:
  "mode (rowOf s t) = Mode s" "temp_c (rowOf s t) = CurrentTempC s"
  "target_c (rowOf s t) = TargetTempC s" "remaining_s (rowOf s t) = RemainingSeconds s"
  "errors (rowOf s t) = ErrorCodes s" "running (rowOf s t) = IsRunning s"
  "updated_at (rowOf s t) = t"
  by (simp_all add: rowOf_def)

lemma scanRow_sel:
  "ID (scanRow r) = 1" "Mode (scanRow r) = mode r" "CurrentTempC (scanRow r) = temp_c r"
  "TargetTempC (scanRow r) = target_c r" "RemainingSeconds (scanRow r) = remaining_s r"
  "ErrorCodes (scanRow r) = errors r" "IsRunning (scanRow r) = running r"
  "UpdatedAt (scanRow r) = updated_at r"
  by (simp_all add: scanRow_def furnaceStateRowID_def)

lemma rowOf_scanRow: "rowOf ((scanRow r)\<lparr>UpdatedAt := u\<rparr>) (updated_at r) = r"
  by (simp add: rowOf_def scanRow_def)

text \<open>The ramp changes the temperature only, and reports a change exactly when it made one.\<close>

lemma heatRamp_state:
  "fst (heatRamp st e) = st\<lparr>CurrentTempC := CurrentTempC (fst (heatRamp st e))\<rparr>"
  by (simp add: heatRamp_def Let_def)

lemma heatRamp_changed: "fst (snd (heatRamp st e)) = (CurrentTempC (fst (heatRamp st e)) \<noteq> CurrentTempC st)"
  by (simp add: heatRamp_def Let_def)

lemma heatRamp_near:
  "TargetTempC st - SoakToleranceC \<le> CurrentTempC st \<Longrightarrow> CurrentTempC st \<le> TargetTempC st \<Longrightarrow>
   heatRamp st e = (st, False, e)"
  by (simp add: heatRamp_def Let_def)

text \<open>The four outcomes of the soak countdown.\<close>

lemma soakCountdown_idle:
  "RemainingSeconds st \<le> 0 \<Longrightarrow> soakCountdown w st se now = (False, st, w)"
  by (simp add: soakCountdown_def)

lemma soakCountdown_short:
  "\<not> 1 \<le> go_int se \<or> \<not> 0 < se \<Longrightarrow> soakCountdown w st se now = (False, st, w)"
  by (auto simp add: soakCountdown_def Let_def)

lemma soakCountdown_dec:
  "0 < RemainingSeconds st \<Longrightarrow> 0 < se \<Longrightarrow> 1 \<le> go_int se \<Longrightarrow> go_int se < RemainingSeconds st \<Longrightarrow>
   soakCountdown w st se now =
     (True, st\<lparr>RemainingSeconds := RemainingSeconds st - go_int se\<rparr>, w)"
  by (simp add: soakCountdown_def Let_def)

lemma soakCountdown_switch:
  "0 < RemainingSeconds st \<Longrightarrow> 0 < se \<Longrightarrow> 1 \<le> go_int se \<Longrightarrow> RemainingSeconds st \<le> go_int se \<Longrightarrow>
   soakCountdown w st se now =
     (True, st\<lparr>RemainingSeconds := 0, Mode := ModeCool\<rparr>,
      w\<lparr>uuid_next := Suc (uuid_next w), events := events w @ [coolEvent (uuid_next w) now]\<rparr>)"
  by (simp add: soakCountdown_def NewString_def Append_def Let_def coolEvent_def
      ModeHeat_def ModeCool_def)

lemma soakCountdown_cases:
  obtains (same) "soakCountdown w st se now = (False, st, w)"
  | (dec) d where "1 \<le> d" "d < RemainingSeconds st"
      "soakCountdown w st se now = (True, st\<lparr>RemainingSeconds := RemainingSeconds st - d\<rparr>, w)"
  | (switch) "0 < RemainingSeconds st"
      "soakCountdown w st se now =
         (True, st\<lparr>RemainingSeconds := 0, Mode := ModeCool\<rparr>,
          w\<lparr>uuid_next := Suc (uuid_next w),
            events := events w @ [coolEvent (uuid_next w) now]\<rparr>)"
proof (cases "0 < RemainingSeconds st \<and> 0 < se \<and> 1 \<le> go_int se")
  case False
  then have "soakCountdown w st se now = (False, st, w)"
    by (auto simp add: soakCountdown_def Let_def)
  then show ?thesis by (rule same)
next
  case True
  show ?thesis
  proof (cases "go_int se < RemainingSeconds st")
    case True
    with \<open>0 < RemainingSeconds st \<and> 0 < se \<and> 1 \<le> go_int se\<close> show ?thesis
      by (intro dec [of "go_int se"]) (simp_all add: soakCountdown_dec)
  next
    case False
    with \<open>0 < RemainingSeconds st \<and> 0 < se \<and> 1 \<le> go_int se\<close> show ?thesis
      by (intro switch) (simp_all add: soakCountdown_switch)
  qed
qed

text \<open>The overheat detection.\<close>

lemma detect_cold:
  "\<not> CurrentTempC st > MaxSafeC \<Longrightarrow> detectAndLogOverheat w st now = (False, st, w)"
  by (simp add: detectAndLogOverheat_def)

lemma detect_hot:
  "CurrentTempC st > MaxSafeC \<Longrightarrow>
   detectAndLogOverheat w st now =
     (''OVERHEAT'' \<notin> set (ErrorCodes st), flagged st,
      w\<lparr>uuid_next := Suc (uuid_next w),
        events := events w @ [overheatEvent (uuid_next w) now (flagged st)]\<rparr>)"
  by (simp add: detectAndLogOverheat_def hasString_iff NewString_def Append_def Let_def
      flagged_def overheatEvent_def)

lemma flagged_sel:
  "CurrentTempC (flagged st) = CurrentTempC st" "Mode (flagged st) = Mode st"
  "RemainingSeconds (flagged st) = RemainingSeconds st" "IsRunning (flagged st) = IsRunning st"
  "TargetTempC (flagged st) = TargetTempC st" "ID (flagged st) = ID st"
  "UpdatedAt (flagged st) = UpdatedAt st"
  "ErrorCodes (flagged st) =
     (if ''OVERHEAT'' \<in> set (ErrorCodes st) then ErrorCodes st
      else ErrorCodes st @ [''OVERHEAT''])"
  by (simp_all add: flagged_def)

lemma flagged_changed: "(flagged st \<noteq> st) = (''OVERHEAT'' \<notin> set (ErrorCodes st))"
proof
  assume "flagged st \<noteq> st"
  then show "''OVERHEAT'' \<notin> set (ErrorCodes st)" by (auto simp: flagged_def)
next
  assume "''OVERHEAT'' \<notin> set (ErrorCodes st)"
  then have "ErrorCodes (flagged st) \<noteq> ErrorCodes st" by (simp add: flagged_sel)
  then show "flagged st \<noteq> st" by auto
qed

text \<open>
  \<open>handleHeat\<close> ends in one of three ways: it only moves the temperature, it also
  counts the soak time down, or it also ends the soak, switches to COOL and appends the
  mode-change event.
\<close>

lemma handleHeat_cases:
  obtains (hold) t where
      "handleHeat w st e now = (t \<noteq> CurrentTempC st, st\<lparr>CurrentTempC := t\<rparr>, w)"
  | (dec) t d where "1 \<le> d" "d < RemainingSeconds st"
      "handleHeat w st e now =
         (True, st\<lparr>CurrentTempC := t, RemainingSeconds := RemainingSeconds st - d\<rparr>, w)"
  | (switch) t where "0 < RemainingSeconds st"
      "handleHeat w st e now =
         (True, st\<lparr>CurrentTempC := t, RemainingSeconds := 0, Mode := ModeCool\<rparr>,
          w\<lparr>uuid_next := Suc (uuid_next w),
            events := events w @ [coolEvent (uuid_next w) now]\<rparr>)"
proof -
  define st1 where "st1 = fst (heatRamp st e)"
  define tc where "tc = fst (snd (heatRamp st e))"
  define se where "se = snd (snd (heatRamp st e))"
  define t where "t = CurrentTempC st1"
  have ramp: "heatRamp st e = (st1, tc, se)"
    by (simp add: st1_def tc_def se_def)
  have st1: "st1 = st\<lparr>CurrentTempC := t\<rparr>"
    unfolding st1_def t_def by (rule heatRamp_state)
  have tc: "tc = (t \<noteq> CurrentTempC st)"
    unfolding tc_def t_def st1_def by (rule heatRamp_changed)
  have hh: "handleHeat w st e now =
      (case soakCountdown w st1 se now of (changed, st2, w2) \<Rightarrow> (changed \<or> tc, st2, w2))"
    by (simp add: handleHeat_def ramp)
  show ?thesis
  proof (cases rule: soakCountdown_cases [of w st1 se now])
    case same
    then show ?thesis using hh st1 tc by (intro that(1) [of t]) simp
  next
    case (dec d)
    then show ?thesis using hh st1 by (intro that(2) [of d t]) (simp_all)
  next
    case switch
    then show ?thesis using hh st1 by (intro that(3) [of t]) (simp_all)
  qed
qed

lemma handleHeat_idle:
  assumes "RemainingSeconds st \<le> 0"
  shows "\<exists>t. handleHeat w st e now = (t \<noteq> CurrentTempC st, st\<lparr>CurrentTempC := t\<rparr>, w)"
proof (cases rule: handleHeat_cases [of w st e now])
  case (hold t)
  then show ?thesis by blast
next
  case (dec t d)
  with assms show ?thesis by simp
next
  case (switch t)
  with assms show ?thesis by simp
qed

text \<open>Cooling: nothing happens at or below ambient, and the result is never below it.\<close>

lemma handleCooling_eq:
  "handleCooling st e rate =
     (CurrentTempC st > AmbientC,
      if CurrentTempC st > AmbientC
      then st\<lparr>CurrentTempC := maxFloat (CurrentTempC st - rate * e) AmbientC\<rparr> else st)"
  by (simp add: handleCooling_def)

lemma driftToAmbient_eq:
  "driftToAmbient st e = handleCooling st e StandbyCoolPerSec"
  by (simp add: handleCooling_def driftToAmbient_def)

lemma maxFloat_ge: "b \<le> maxFloat a b"
  by (simp add: maxFloat_def)

lemma modeSwitch_heat: "Mode st = ModeHeat \<Longrightarrow> modeSwitch w st e now = handleHeat w st e now"
  by (simp add: modeSwitch_def)

lemma modeSwitch_cool:
  "Mode st \<noteq> ModeHeat \<Longrightarrow>
   modeSwitch w st e now =
     (fst (handleCooling st e (if Mode st = ModeCool then RampDownCPerSec else StandbyCoolPerSec)),
      snd (handleCooling st e (if Mode st = ModeCool then RampDownCPerSec else StandbyCoolPerSec)),
      w)"
  by (simp add: modeSwitch_def split: prod.splits)

text \<open>
  The switch on the mode in the same three shapes; in the first, a flag that is not set
  means that the temperature is as before.
\<close>

lemma modeSwitch_cases:
  obtains (hold) c t where
      "modeSwitch w st e now = (c, st\<lparr>CurrentTempC := t\<rparr>, w)"
      "\<not> c \<Longrightarrow> t = CurrentTempC st"
  | (dec) t d where "1 \<le> d" "d < RemainingSeconds st" "Mode st = ModeHeat"
      "modeSwitch w st e now =
         (True, st\<lparr>CurrentTempC := t, RemainingSeconds := RemainingSeconds st - d\<rparr>, w)"
  | (switch) t where "0 < RemainingSeconds st" "Mode st = ModeHeat"
      "modeSwitch w st e now =
         (True, st\<lparr>CurrentTempC := t, RemainingSeconds := 0, Mode := ModeCool\<rparr>,
          w\<lparr>uuid_next := Suc (uuid_next w),
            events := events w @ [coolEvent (uuid_next w) now]\<rparr>)"
proof (cases "Mode st = ModeHeat")
  case True
  then have eq: "modeSwitch w st e now = handleHeat w st e now" by (rule modeSwitch_heat)
  show ?thesis
  proof (cases rule: handleHeat_cases [of w st e now])
    case (hold t)
    then show ?thesis using eq by (intro that(1) [of "t \<noteq> CurrentTempC st" t]) simp_all
  next
    case (dec t d)
    then show ?thesis using eq True by (intro that(2) [of d t]) simp_all
  next
    case (switch t)
    then show ?thesis using eq True by (intro that(3) [of t]) simp_all
  qed
next
  case False
  define rate where "rate = (if Mode st = ModeCool then RampDownCPerSec else StandbyCoolPerSec)"
  have eq: "modeSwitch w st e now =
      (fst (handleCooling st e rate), snd (handleCooling st e rate), w)"
    unfolding rate_def using False by (rule modeSwitch_cool)
  have shape: "snd (handleCooling st e rate) =
      st\<lparr>CurrentTempC := CurrentTempC (snd (handleCooling st e rate))\<rparr>"
    by (simp add: handleCooling_eq)
  show ?thesis
  proof (rule that(1) [of "fst (handleCooling st e rate)"
        "CurrentTempC (snd (handleCooling st e rate))"])
    show "modeSwitch w st e now =
        (fst (handleCooling st e rate),
         st\<lparr>CurrentTempC := CurrentTempC (snd (handleCooling st e rate))\<rparr>, w)"
      using eq shape by simp
  next
    assume "\<not> fst (handleCooling st e rate)"
    then show "CurrentTempC (snd (handleCooling st e rate)) = CurrentTempC st"
      by (simp add: handleCooling_eq)
  qed
qed

text \<open>What the switch on the mode leaves alone, what it appends, and what a flag not set means.\<close>

lemma modeSwitch_state:
  assumes "modeSwitch w st e now = (c1, st1, w1)"
  shows "ErrorCodes st1 = ErrorCodes st" "IsRunning st1 = IsRunning st" "ID st1 = ID st"
    "TargetTempC st1 = TargetTempC st" "UpdatedAt st1 = UpdatedAt st"
proof -
  have "ErrorCodes st1 = ErrorCodes st \<and> IsRunning st1 = IsRunning st \<and> ID st1 = ID st
      \<and> TargetTempC st1 = TargetTempC st \<and> UpdatedAt st1 = UpdatedAt st"
    using assms by (cases rule: modeSwitch_cases [of w st e now]) auto
  then show "ErrorCodes st1 = ErrorCodes st" "IsRunning st1 = IsRunning st" "ID st1 = ID st"
    "TargetTempC st1 = TargetTempC st" "UpdatedAt st1 = UpdatedAt st"
    by simp_all
qed

lemma modeSwitch_world:
  assumes "modeSwitch w st e now = (c1, st1, w1)"
  shows "furnace_state w1 = furnace_state w" "saves w1 = saves w" "loadErr w1 = loadErr w"
    "saveErr w1 = saveErr w" "appendErr w1 = appendErr w" "clock w1 = clock w"
proof -
  have "furnace_state w1 = furnace_state w \<and> saves w1 = saves w \<and> loadErr w1 = loadErr w
      \<and> saveErr w1 = saveErr w \<and> appendErr w1 = appendErr w \<and> clock w1 = clock w"
    using assms by (cases rule: modeSwitch_cases [of w st e now]) auto
  then show "furnace_state w1 = furnace_state w" "saves w1 = saves w" "loadErr w1 = loadErr w"
    "saveErr w1 = saveErr w" "appendErr w1 = appendErr w" "clock w1 = clock w"
    by simp_all
qed

lemma modeSwitch_events:
  assumes "modeSwitch w st e now = (c1, st1, w1)"
  obtains (quiet) "w1 = w" "Mode st1 = Mode st" "RemainingSeconds st1 \<le> RemainingSeconds st"
  | (cool) "events w1 = events w @ [coolEvent (uuid_next w) now]"
      "uuid_next w1 = Suc (uuid_next w)" "Mode st = ModeHeat" "0 < RemainingSeconds st"
      "Mode st1 = ModeCool" "RemainingSeconds st1 = 0" "c1"
proof (cases rule: modeSwitch_cases [of w st e now])
  case (hold c t)
  with assms show ?thesis by (intro quiet) auto
next
  case (dec t d)
  with assms show ?thesis by (intro quiet) auto
next
  case (switch t)
  with assms show ?thesis by (intro cool) auto
qed

lemma modeSwitch_quiet:
  assumes "modeSwitch w st e now = (c1, st1, w1)" "\<not> c1"
  shows "st1 = st"
proof (cases rule: modeSwitch_cases [of w st e now])
  case (hold c t)
  with assms have "st1 = st\<lparr>CurrentTempC := t\<rparr>" "t = CurrentTempC st" by auto
  then show ?thesis by simp
next
  case (dec t d)
  with assms show ?thesis by simp
next
  case (switch t)
  with assms show ?thesis by simp
qed

text \<open>The running step in terms of the switch's result.\<close>

lemma whenRunning_eq:
  assumes "modeSwitch w st e now = (c1, st1, w1)"
  shows "whenRunning w st e now =
     (if CurrentTempC st1 > MaxSafeC
      then (c1 \<or> ''OVERHEAT'' \<notin> set (ErrorCodes st1), flagged st1,
            w1\<lparr>uuid_next := Suc (uuid_next w1),
               events := events w1 @ [overheatEvent (uuid_next w1) now (flagged st1)]\<rparr>)
      else (c1, st1, w1))"
  using assms by (simp add: whenRunning_def detect_hot detect_cold)

section \<open>One tick\<close>

lemma tick_loadErr: "loadErr w \<Longrightarrow> tick now w = w"
  by (simp add: tick_def Load_def)

lemma tick_empty:
  "\<not> loadErr w \<Longrightarrow> furnace_state w = None \<Longrightarrow>
   tick now w =
     snd (Save \<lparr>ID = 1, Mode = ModeStandby, CurrentTempC = AmbientC, TargetTempC = 0,
                RemainingSeconds = 0, ErrorCodes = [], IsRunning = False,
                UpdatedAt = UTC now\<rparr> w)"
  by (simp add: tick_def Load_empty zeroState_def)

lemma tick_early:
  "\<not> loadErr w \<Longrightarrow> furnace_state w = Some r \<Longrightarrow>
   Seconds (Sub now (UTC (updated_at r))) < 1 \<Longrightarrow> tick now w = w"
  by (simp add: tick_def Load_row scanRow_sel)

lemma tick_stopped:
  "\<not> loadErr w \<Longrightarrow> furnace_state w = Some r \<Longrightarrow> \<not> running r \<Longrightarrow>
   1 \<le> Seconds (Sub now (UTC (updated_at r))) \<Longrightarrow>
   tick now w =
     (case driftToAmbient ((scanRow r)\<lparr>UpdatedAt := UTC (updated_at r)\<rparr>)
             (Seconds (Sub now (UTC (updated_at r)))) of
        (changed, st1) \<Rightarrow>
          if changed then snd (Save (st1\<lparr>UpdatedAt := UTC now\<rparr>) w) else w)"
  by (simp add: tick_def Load_row scanRow_sel)

lemma tick_running:
  "\<not> loadErr w \<Longrightarrow> furnace_state w = Some r \<Longrightarrow> running r \<Longrightarrow>
   1 \<le> Seconds (Sub now (UTC (updated_at r))) \<Longrightarrow>
   tick now w =
     (case whenRunning w ((scanRow r)\<lparr>UpdatedAt := UTC (updated_at r)\<rparr>)
             (Seconds (Sub now (UTC (updated_at r)))) now of
        (changed, st2, w2) \<Rightarrow>
          if changed then snd (Save (st2\<lparr>UpdatedAt := UTC now\<rparr>) w2) else w2)"
  by (simp add: tick_def Load_row scanRow_sel)

section \<open>Heating without soak time\<close>

lemma Save_cases:
  obtains (failed) "saveErr w" "furnace_state (snd (Save s w)) = furnace_state w"
  | (stored) ts where "\<not> saveErr w" "furnace_state (snd (Save s w)) = Some (rowOf s ts)"
      "ts = (if IsZero (UpdatedAt s) then UTC (clock w) else UTC (UpdatedAt s))"
proof (cases "saveErr w")
  case True
  then show ?thesis by (intro failed) (simp_all add: Save_row_fail)
next
  case False
  then show ?thesis by (intro stored) (simp_all add: Save_row)
qed

lemma tick_heat_idle:
  assumes "furnace_state w = Some r" "running r" "mode r = ModeHeat" "remaining_s r = 0"
  shows "\<exists>r' es. furnace_state (tick now w) = Some r' \<and> running r' \<and> mode r' = ModeHeat
           \<and> remaining_s r' = 0 \<and> target_c r' = target_c r
           \<and> events (tick now w) = events w @ es \<and> ofType ''MODE_CHANGE'' es = []"
proof -
  define st where "st = (scanRow r)\<lparr>UpdatedAt := UTC (updated_at r)\<rparr>"
  define e where "e = Seconds (Sub now (UTC (updated_at r)))"
  have same: "tick now w = w \<Longrightarrow> ?thesis"
    using assms by (simp add: ofType_def)
  show ?thesis
  proof (cases "loadErr w \<or> e < 1")
    case True
    then have "tick now w = w"
      using assms(1) by (cases "loadErr w") (auto simp: tick_loadErr tick_early e_def)
    then show ?thesis by (rule same)
  next
    case False
    then have ok: "\<not> loadErr w" "1 \<le> e" by simp_all
    have st: "RemainingSeconds st = 0" "Mode st = ModeHeat" "IsRunning st"
      "TargetTempC st = target_c r"
      using assms by (simp_all add: st_def scanRow_sel)
    from handleHeat_idle [of st w e now] st obtain t where
      ms: "modeSwitch w st e now = (t \<noteq> CurrentTempC st, st\<lparr>CurrentTempC := t\<rparr>, w)"
      by (auto simp: modeSwitch_heat)
    have tk: "tick now w =
        (case whenRunning w st e now of
           (changed, st2, w2) \<Rightarrow>
             if changed then snd (Save (st2\<lparr>UpdatedAt := UTC now\<rparr>) w2) else w2)"
      unfolding st_def e_def using ok(1) assms(1,2) ok(2) [unfolded e_def]
      by (rule tick_running)
    obtain c st2 w2 where wr: "whenRunning w st e now = (c, st2, w2)"
      by (cases "whenRunning w st e now") auto
    from wr have st2: "RemainingSeconds st2 = 0" "Mode st2 = ModeHeat" "IsRunning st2"
      "TargetTempC st2 = target_c r"
      using st by (auto simp: whenRunning_eq [OF ms] flagged_sel split: if_splits)
    from wr obtain es where w2: "events w2 = events w @ es" "ofType ''MODE_CHANGE'' es = []"
      "furnace_state w2 = Some r"
      using assms(1)
      by (auto simp: whenRunning_eq [OF ms] ofType_def overheatEvent_def split: if_splits)
    show ?thesis
    proof (cases c)
      case False
      with tk wr have "tick now w = w2" by simp
      with w2 assms show ?thesis by auto
    next
      case True
      with tk wr have eq: "tick now w = snd (Save (st2\<lparr>UpdatedAt := UTC now\<rparr>) w2)" by simp
      show ?thesis
      proof (cases rule: Save_cases [of w2 "st2\<lparr>UpdatedAt := UTC now\<rparr>"])
        case failed
        with eq w2 assms show ?thesis by (auto simp: Save_frame)
      next
        case (stored ts)
        with eq w2 st2 show ?thesis by (auto simp: Save_frame rowOf_sel)
      qed
    qed
  qed
qed

lemma Run_heat_idle:
  "furnace_state w = Some r \<Longrightarrow> running r \<Longrightarrow> mode r = ModeHeat \<Longrightarrow> remaining_s r = 0 \<Longrightarrow>
   \<exists>r' es. furnace_state (Run ticks w) = Some r' \<and> running r' \<and> mode r' = ModeHeat
     \<and> remaining_s r' = 0 \<and> target_c r' = target_c r
     \<and> events (Run ticks w) = events w @ es \<and> ofType ''MODE_CHANGE'' es = []"
proof (induction ticks arbitrary: w r)
  case Nil
  then show ?case by (simp add: ofType_def)
next
  case (Cons now ticks)
  from tick_heat_idle [OF Cons.prems, of now] obtain r1 es1 where
    r1: "furnace_state (tick now w) = Some r1" "running r1" "mode r1 = ModeHeat"
      "remaining_s r1 = 0" "target_c r1 = target_c r"
    and es1: "events (tick now w) = events w @ es1" "ofType ''MODE_CHANGE'' es1 = []"
    by blast
  from Cons.IH [OF r1(1-4)] obtain r' es where
    r': "furnace_state (Run ticks (tick now w)) = Some r'" "running r'" "mode r' = ModeHeat"
      "remaining_s r' = 0" "target_c r' = target_c r1"
    and es: "events (Run ticks (tick now w)) = events (tick now w) @ es"
      "ofType ''MODE_CHANGE'' es = []"
    by blast
  have "events (Run (now # ticks) w) = events w @ (es1 @ es)"
    using es1 es by simp
  moreover have "ofType ''MODE_CHANGE'' (es1 @ es) = []"
    using es1 es by (simp add: ofType_def)
  ultimately show ?case using r' r1(5) by auto
qed

text \<open>
  Claim C10. A running state in HEAT whose remaining soak time is already 0 stays so
  under any sequence of ticks: after them the stored state is still running, in HEAT,
  with remaining time 0 and the same target, and none of the events appended meanwhile
  is a MODE\_CHANGE. Inside one tick, \<open>handleHeat\<close> on such a state only moves the
  temperature and appends nothing.
\<close>

theorem heat_without_soak_never_cools:
  assumes "furnace_state w = Some r" "running r" "mode r = ModeHeat" "remaining_s r = 0"
  shows "(\<exists>r'. furnace_state (Run ticks w) = Some r' \<and> running r' \<and> mode r' = ModeHeat
            \<and> remaining_s r' = 0 \<and> target_c r' = target_c r)
       \<and> ofType ''MODE_CHANGE'' (newEvents w (Run ticks w)) = []
       \<and> (RemainingSeconds st = 0 \<longrightarrow>
            (\<exists>t. handleHeat w' st e now = (t \<noteq> CurrentTempC st, st\<lparr>CurrentTempC := t\<rparr>, w')))"
proof -
  from Run_heat_idle [OF assms, of ticks] obtain r' es where
    "furnace_state (Run ticks w) = Some r'" "running r'" "mode r' = ModeHeat"
    "remaining_s r' = 0" "target_c r' = target_c r"
    "events (Run ticks w) = events w @ es" "ofType ''MODE_CHANGE'' es = []"
    by blast
  then have "(\<exists>r'. furnace_state (Run ticks w) = Some r' \<and> running r' \<and> mode r' = ModeHeat
            \<and> remaining_s r' = 0 \<and> target_c r' = target_c r)
       \<and> ofType ''MODE_CHANGE'' (newEvents w (Run ticks w)) = []"
    by (simp add: newEvents_def)
  moreover have "RemainingSeconds st = 0 \<longrightarrow>
      (\<exists>t. handleHeat w' st e now = (t \<noteq> CurrentTempC st, st\<lparr>CurrentTempC := t\<rparr>, w'))"
    using handleHeat_idle [of st w' e now] by simp
  ultimately show ?thesis by simp
qed

theorem heat_without_soak_never_cools_witness:
  "furnace_state (worldWith (exampleRow ''HEAT'' 100 110 0 True))
     = Some (exampleRow ''HEAT'' 100 110 0 True)
   \<and> running (exampleRow ''HEAT'' 100 110 0 True)
   \<and> mode (exampleRow ''HEAT'' 100 110 0 True) = ModeHeat
   \<and> remaining_s (exampleRow ''HEAT'' 100 110 0 True) = 0
   \<and> (\<exists>r'. furnace_state (Run [after 2000000000, after 9000000000]
                             (worldWith (exampleRow ''HEAT'' 100 110 0 True))) = Some r'
          \<and> running r' \<and> mode r' = ''HEAT'' \<and> remaining_s r' = 0 \<and> target_c r' = 110)
   \<and> ofType ''MODE_CHANGE''
        (newEvents (worldWith (exampleRow ''HEAT'' 100 110 0 True))
           (Run [after 2000000000, after 9000000000]
              (worldWith (exampleRow ''HEAT'' 100 110 0 True)))) = []"
proof -
  let ?r = "exampleRow ''HEAT'' 100 110 0 True"
  have h: "furnace_state (worldWith ?r) = Some ?r" "running ?r" "mode ?r = ModeHeat"
    "remaining_s ?r = 0"
    by (simp_all add: example_defs ModeHeat_def)
  have t: "target_c ?r = 110" "ModeHeat = ''HEAT''"
    by (simp_all add: example_defs ModeHeat_def)
  from heat_without_soak_never_cools [OF h, of "[after 2000000000, after 9000000000]"] h t
  show ?thesis by simp
qed

section \<open>The end of the soak\<close>

lemma Sub_in_range:
  "minDuration \<le> ns t - ns u \<Longrightarrow> ns t - ns u \<le> maxDuration \<Longrightarrow> Sub t u = ns t - ns u"
  by (simp add: Sub_def Let_def)

lemma UTC_sel: "ns (UTC t) = ns t" "loc (UTC t) = LocUTC"
  by (simp_all add: UTC_def)

text \<open>
  Claim C3. \<open>handleHeat\<close> on a state at its target temperature with one second
  remaining, for an elapsed time of 1.2 seconds, sets the remaining time to 0, switches
  the mode to COOL and appends one event, the MODE\_CHANGE with metadata
  \<open>{from: HEAT, to: COOL}\<close>. In a whole tick 1.2 seconds after the last update of such
  a running HEAT state, with a working store, the stored state ends with remaining time 0
  in mode COOL, and the MODE\_CHANGE events appended by the tick are exactly that one.
\<close>

theorem soak_end_switches_to_cool:
  assumes "\<not> loadErr w" "\<not> saveErr w" "furnace_state w = Some r" "running r"
    "mode r = ModeHeat" "temp_c r = target_c r" "remaining_s r = 1"
    "ns now = ns (updated_at r) + 1200000000"
  shows "(CurrentTempC st = TargetTempC st \<and> RemainingSeconds st = 1 \<longrightarrow>
            handleHeat w' st (12 / 10) now' =
              (True, st\<lparr>RemainingSeconds := 0, Mode := ''COOL''\<rparr>,
               w'\<lparr>uuid_next := Suc (uuid_next w'),
                  events := events w' @
                    [\<lparr>EventID = uuid_next w', OccurredAt = UTC now', Type = ''MODE_CHANGE'',
                      Description = ''Duration elapsed; switched to COOL'',
                      Metadata = Some [(''from'', AString ''HEAT''),
                                       (''to'', AString ''COOL'')]\<rparr>]\<rparr>))
       \<and> (\<exists>r'. furnace_state (tick now w) = Some r' \<and> remaining_s r' = 0 \<and> mode r' = ''COOL'')
       \<and> ofType ''MODE_CHANGE'' (newEvents w (tick now w)) =
            [\<lparr>EventID = uuid_next w, OccurredAt = UTC now, Type = ''MODE_CHANGE'',
              Description = ''Duration elapsed; switched to COOL'',
              Metadata = Some [(''from'', AString ''HEAT''), (''to'', AString ''COOL'')]\<rparr>]"
proof -
  have hh: "handleHeat w' st (12 / 10) now' =
      (True, st\<lparr>RemainingSeconds := 0, Mode := ModeCool\<rparr>,
       w'\<lparr>uuid_next := Suc (uuid_next w'),
          events := events w' @ [coolEvent (uuid_next w') now']\<rparr>)"
    if "CurrentTempC st = TargetTempC st" "RemainingSeconds st = 1" for st w' now'
  proof -
    have "heatRamp st (12 / 10) = (st, False, 12 / 10)"
      using that(1) by (intro heatRamp_near) (simp_all add: SoakToleranceC_def)
    moreover have "soakCountdown w' st (12 / 10) now' =
        (True, st\<lparr>RemainingSeconds := 0, Mode := ModeCool\<rparr>,
         w'\<lparr>uuid_next := Suc (uuid_next w'),
            events := events w' @ [coolEvent (uuid_next w') now']\<rparr>)"
      using that(2) by (intro soakCountdown_switch) (simp_all add: go_int_def)
    ultimately show ?thesis by (simp only: handleHeat_def Let_def prod.case simp_thms)
  qed
  define st0 where "st0 = (scanRow r)\<lparr>UpdatedAt := UTC (updated_at r)\<rparr>"
  define e :: real where "e = 12 / 10"
  have el: "Seconds (Sub now (UTC (updated_at r))) = e"
    using assms(8)
    by (simp add: Sub_in_range UTC_sel minDuration_def maxDuration_def Seconds_def e_def)
  have st0: "CurrentTempC st0 = TargetTempC st0" "RemainingSeconds st0 = 1"
    "Mode st0 = ModeHeat"
    using assms by (simp_all add: st0_def scanRow_sel)
  have ms: "modeSwitch w st0 e now =
      (True, st0\<lparr>RemainingSeconds := 0, Mode := ModeCool\<rparr>,
       w\<lparr>uuid_next := Suc (uuid_next w),
         events := events w @ [coolEvent (uuid_next w) now]\<rparr>)"
    unfolding modeSwitch_heat [OF st0(3)] e_def by (rule hh [OF st0(1,2)])
  have "1 \<le> Seconds (Sub now (UTC (updated_at r)))"
    unfolding el by (simp add: e_def)
  from tick_running [OF assms(1) assms(3) assms(4) this]
  have tk: "tick now w =
      (case whenRunning w st0 e now of
         (changed, st2, w2) \<Rightarrow>
           if changed then snd (Save (st2\<lparr>UpdatedAt := UTC now\<rparr>) w2) else w2)"
    unfolding el st0_def .
  have row: "\<exists>r'. furnace_state (tick now w) = Some r' \<and> remaining_s r' = 0 \<and> mode r' = ''COOL''"
    using assms(2)
    by (simp add: tk whenRunning_eq [OF ms] Save_row rowOf_sel flagged_sel ModeCool_def)
  have ev: "ofType ''MODE_CHANGE'' (newEvents w (tick now w)) = [coolEvent (uuid_next w) now]"
    by (simp add: tk whenRunning_eq [OF ms] Save_frame newEvents_def ofType_def
        coolEvent_def overheatEvent_def)
  show ?thesis
    using hh [of st w' now'] row ev by (simp add: coolEvent_def ModeCool_def)
qed

theorem soak_end_switches_to_cool_witness:
  "\<not> loadErr (worldWith (exampleRow ''HEAT'' 110 110 1 True))
   \<and> \<not> saveErr (worldWith (exampleRow ''HEAT'' 110 110 1 True))
   \<and> ns (after 1200000000) = ns (updated_at (exampleRow ''HEAT'' 110 110 1 True)) + 1200000000
   \<and> (\<exists>r'. furnace_state (tick (after 1200000000)
                             (worldWith (exampleRow ''HEAT'' 110 110 1 True))) = Some r'
          \<and> remaining_s r' = 0 \<and> mode r' = ''COOL'')
   \<and> ofType ''MODE_CHANGE''
        (newEvents (worldWith (exampleRow ''HEAT'' 110 110 1 True))
           (tick (after 1200000000) (worldWith (exampleRow ''HEAT'' 110 110 1 True)))) =
       [\<lparr>EventID = 0, OccurredAt = UTC (after 1200000000), Type = ''MODE_CHANGE'',
         Description = ''Duration elapsed; switched to COOL'',
         Metadata = Some [(''from'', AString ''HEAT''), (''to'', AString ''COOL'')]\<rparr>]"
proof -
  let ?r = "exampleRow ''HEAT'' 110 110 1 True"
  have h: "\<not> loadErr (worldWith ?r)" "\<not> saveErr (worldWith ?r)"
    "furnace_state (worldWith ?r) = Some ?r" "running ?r" "mode ?r = ModeHeat"
    "temp_c ?r = target_c ?r" "remaining_s ?r = 1"
    "ns (after 1200000000) = ns (updated_at ?r) + 1200000000"
    by (simp_all add: example_defs ModeHeat_def UTC_def)
  have u: "uuid_next (worldWith ?r) = 0" by (simp add: example_defs)
  from soak_end_switches_to_cool [OF h] h(1,2,8) u show ?thesis by simp
qed

section \<open>The hazard check\<close>

lemma whenRunning_world:
  assumes "whenRunning w st e now = (c, st2, w2)"
  shows "furnace_state w2 = furnace_state w" "saves w2 = saves w" "loadErr w2 = loadErr w"
    "saveErr w2 = saveErr w" "appendErr w2 = appendErr w" "clock w2 = clock w"
proof -
  obtain c1 st1 w1 where ms: "modeSwitch w st e now = (c1, st1, w1)"
    by (cases "modeSwitch w st e now") auto
  have "furnace_state w2 = furnace_state w \<and> saves w2 = saves w \<and> loadErr w2 = loadErr w
      \<and> saveErr w2 = saveErr w \<and> appendErr w2 = appendErr w \<and> clock w2 = clock w"
    using assms modeSwitch_world [OF ms]
    by (auto simp: whenRunning_eq [OF ms] split: if_splits)
  then show "furnace_state w2 = furnace_state w" "saves w2 = saves w" "loadErr w2 = loadErr w"
    "saveErr w2 = saveErr w" "appendErr w2 = appendErr w" "clock w2 = clock w"
    by simp_all
qed

lemma tick_frame:
  "loadErr (tick now w) = loadErr w \<and> saveErr (tick now w) = saveErr w
   \<and> appendErr (tick now w) = appendErr w \<and> clock (tick now w) = clock w"
proof (cases "loadErr w")
  case True
  then show ?thesis by (simp add: tick_loadErr)
next
  case False
  show ?thesis
  proof (cases "furnace_state w")
    case None
    with False show ?thesis by (simp add: tick_empty Save_frame)
  next
    case (Some r)
    show ?thesis
    proof (cases "Seconds (Sub now (UTC (updated_at r))) < 1")
      case True
      with False Some show ?thesis by (simp add: tick_early)
    next
      case late: False
      show ?thesis
      proof (cases "running r")
        case False
        with \<open>\<not> loadErr w\<close> Some late show ?thesis
          by (simp add: tick_stopped Save_frame split: prod.splits)
      next
        case True
        obtain c st2 w2 where wr:
          "whenRunning w ((scanRow r)\<lparr>UpdatedAt := UTC (updated_at r)\<rparr>)
             (Seconds (Sub now (UTC (updated_at r)))) now = (c, st2, w2)"
          by (cases "whenRunning w ((scanRow r)\<lparr>UpdatedAt := UTC (updated_at r)\<rparr>)
             (Seconds (Sub now (UTC (updated_at r)))) now") auto
        from \<open>\<not> loadErr w\<close> Some True late show ?thesis
          by (simp add: tick_running wr whenRunning_world [OF wr] Save_frame)
      qed
    qed
  qed
qed

text \<open>
  One tick of a running state with a working store, seen from outside: the stored state
  carries the overheat code exactly when it had it before or its temperature after the
  tick is above the threshold, and the tick appends one ERROR event, its last event,
  exactly in the second case.
\<close>

lemma tick_running_hazard:
  assumes "\<not> loadErr w" "\<not> saveErr w" "furnace_state w = Some r" "running r"
    "1 \<le> Seconds (Sub now (UTC (updated_at r)))"
  shows "\<exists>r' es. furnace_state (tick now w) = Some r' \<and> running r'
      \<and> events (tick now w) = events w @ es
      \<and> errors r' = (if MaxSafeC < temp_c r' \<and> ''OVERHEAT'' \<notin> set (errors r)
                      then errors r @ [''OVERHEAT''] else errors r)
      \<and> length (ofType ''ERROR'' es) = (if MaxSafeC < temp_c r' then 1 else 0)
      \<and> (MaxSafeC < temp_c r' \<longrightarrow>
           es \<noteq> [] \<and> Type (last es) = ''ERROR'' \<and> OccurredAt (last es) = UTC now)"
proof -
  define st where "st = (scanRow r)\<lparr>UpdatedAt := UTC (updated_at r)\<rparr>"
  define e where "e = Seconds (Sub now (UTC (updated_at r)))"
  have st: "ErrorCodes st = errors r" "IsRunning st" "CurrentTempC st = temp_c r"
    using assms(4) by (simp_all add: st_def scanRow_sel)
  obtain c1 st1 w1 where ms: "modeSwitch w st e now = (c1, st1, w1)"
    by (cases "modeSwitch w st e now") auto
  note s1 = modeSwitch_state [OF ms] and w1 = modeSwitch_world [OF ms]
  have "\<exists>es1. events w1 = events w @ es1 \<and> ofType ''ERROR'' es1 = []"
    by (rule modeSwitch_events [OF ms]) (auto simp: ofType_def coolEvent_def)
  then obtain es1 where es1: "events w1 = events w @ es1" "ofType ''ERROR'' es1 = []"
    by blast
  have tk: "tick now w =
      (case whenRunning w st e now of
         (changed, st2, w2) \<Rightarrow>
           if changed then snd (Save (st2\<lparr>UpdatedAt := UTC now\<rparr>) w2) else w2)"
    unfolding st_def e_def using assms(1,3,4,5) by (rule tick_running)
  have same: "temp_c r = CurrentTempC st1" if "\<not> c1"
    using modeSwitch_quiet [OF ms that] st by simp
  show ?thesis
  proof (cases "MaxSafeC < CurrentTempC st1")
    case hot: True
    define ev where "ev = overheatEvent (uuid_next w1) now (flagged st1)"
    define w2 where "w2 = w1\<lparr>uuid_next := Suc (uuid_next w1), events := events w1 @ [ev]\<rparr>"
    have wr: "whenRunning w st e now = (c1 \<or> ''OVERHEAT'' \<notin> set (errors r), flagged st1, w2)"
      using hot by (simp add: whenRunning_eq [OF ms] w2_def ev_def s1 st)
    have ev: "Type ev = ''ERROR''" "OccurredAt ev = UTC now"
      by (simp_all add: ev_def overheatEvent_def)
    have evs: "events w2 = events w @ (es1 @ [ev])" "length (ofType ''ERROR'' (es1 @ [ev])) = 1"
      using es1 ev by (simp_all add: w2_def ofType_def)
    have w2: "furnace_state w2 = Some r" "\<not> saveErr w2"
      using assms(2,3) w1 by (simp_all add: w2_def)
    show ?thesis
    proof (cases "c1 \<or> ''OVERHEAT'' \<notin> set (errors r)")
      case True
      then have "tick now w = snd (Save ((flagged st1)\<lparr>UpdatedAt := UTC now\<rparr>) w2)"
        by (simp add: tk wr)
      then show ?thesis
        using w2(2) hot evs ev s1 st
        by (simp add: Save_row Save_frame rowOf_sel flagged_sel)
    next
      case False
      then have "tick now w = w2" by (simp add: tk wr)
      then show ?thesis
        using w2(1) hot evs ev False same assms(4) by simp
    qed
  next
    case cold: False
    have wr: "whenRunning w st e now = (c1, st1, w1)"
      using cold by (simp add: whenRunning_eq [OF ms])
    have w1': "furnace_state w1 = Some r" "\<not> saveErr w1"
      using assms(2,3) w1 by simp_all
    show ?thesis
    proof (cases c1)
      case True
      then have "tick now w = snd (Save (st1\<lparr>UpdatedAt := UTC now\<rparr>) w1)"
        by (simp add: tk wr)
      then show ?thesis
        using w1'(2) cold es1 s1 st
        by (simp add: Save_row Save_frame rowOf_sel)
    next
      case False
      then have "tick now w = w1" by (simp add: tk wr)
      then show ?thesis
        using w1'(1) cold es1 same [OF False] assms(4) by simp
    qed
  qed
qed

lemmas tick_unfold =
  tick_def Load_def Save_def scanRow_def rowOf_def furnaceStateRowID_def whenRunning_def
  modeSwitch_def handleHeat_def heatRamp_def soakCountdown_def handleCooling_def
  driftToAmbient_def detectAndLogOverheat_def NewString_def Append_def maxFloat_def
  Seconds_def Sub_def minDuration_def maxDuration_def UTC_def IsZero_def Now_def go_int_def
  zeroState_def zeroTime_def

lemma tick_stopped_quiet:
  assumes "\<not> loadErr w" "\<not> saveErr w" "furnace_state w = Some r" "\<not> running r"
  shows "(\<exists>r'. furnace_state (tick now w) = Some r' \<and> errors r' = errors r \<and> \<not> running r')
       \<and> events (tick now w) = events w"
proof (cases "Seconds (Sub now (UTC (updated_at r))) < 1")
  case True
  with assms show ?thesis by (simp add: tick_early)
next
  case False
  with assms show ?thesis
    by (simp add: tick_stopped driftToAmbient_eq handleCooling_eq Save_row Save_frame
        rowOf_sel scanRow_sel)
qed

text \<open>
  Claim C1, as the code has it. On a tick at least one second after the last update,
  with a working store: when the state is running, whichever mode branch is taken, if
  the temperature stored after the tick exceeds 1000 degrees then the stored error codes
  contain OVERHEAT, as many times as before or once if it was absent, and the tick
  appends exactly one ERROR event, which is the last event of the log and is stamped with
  the tick's time in UTC. When the state is not running the tick makes no hazard check:
  the error codes are unchanged and no event is appended.
\<close>

theorem running_tick_flags_overheat:
  assumes "\<not> loadErr w" "\<not> saveErr w" "furnace_state w = Some r"
    "1 \<le> Seconds (Sub now (UTC (updated_at r)))"
  shows "(running r \<longrightarrow>
            (\<exists>r'. furnace_state (tick now w) = Some r' \<and>
               (MaxSafeC < temp_c r' \<longrightarrow>
                  ''OVERHEAT'' \<in> set (errors r')
                  \<and> count_list (errors r') ''OVERHEAT''
                      = max 1 (count_list (errors r) ''OVERHEAT'')
                  \<and> length (ofType ''ERROR'' (newEvents w (tick now w))) = 1
                  \<and> Type (last (events (tick now w))) = ''ERROR''
                  \<and> OccurredAt (last (events (tick now w))) = UTC now)))
       \<and> (\<not> running r \<longrightarrow>
            (\<exists>r'. furnace_state (tick now w) = Some r' \<and> errors r' = errors r)
            \<and> events (tick now w) = events w)"
proof (rule conjI; rule impI)
  assume run: "running r"
  from tick_running_hazard [OF assms(1-3) run assms(4)] obtain r' es where
    r': "furnace_state (tick now w) = Some r'"
    and es: "events (tick now w) = events w @ es"
    and codes: "errors r' = (if MaxSafeC < temp_c r' \<and> ''OVERHEAT'' \<notin> set (errors r)
                      then errors r @ [''OVERHEAT''] else errors r)"
    and n: "length (ofType ''ERROR'' es) = (if MaxSafeC < temp_c r' then 1 else 0)"
    and l: "MaxSafeC < temp_c r' \<longrightarrow>
           es \<noteq> [] \<and> Type (last es) = ''ERROR'' \<and> OccurredAt (last es) = UTC now"
    by blast
  have new: "newEvents w (tick now w) = es" by (simp add: newEvents_def es)
  have "''OVERHEAT'' \<in> set (errors r') \<and>
      count_list (errors r') ''OVERHEAT'' = max 1 (count_list (errors r) ''OVERHEAT'')"
    if "MaxSafeC < temp_c r'"
  proof (cases "''OVERHEAT'' \<in> set (errors r)")
    case True
    then have "count_list (errors r) ''OVERHEAT'' \<noteq> 0" by (simp add: count_list_0_iff)
    then have "0 < count_list (errors r) ''OVERHEAT''" by simp
    with True codes that show ?thesis by simp
  next
    case False
    then have "count_list (errors r) ''OVERHEAT'' = 0" by (simp add: count_list_0_iff)
    with False codes that show ?thesis by simp
  qed
  with r' n l new es
  show "\<exists>r'. furnace_state (tick now w) = Some r' \<and>
               (MaxSafeC < temp_c r' \<longrightarrow>
                  ''OVERHEAT'' \<in> set (errors r')
                  \<and> count_list (errors r') ''OVERHEAT''
                      = max 1 (count_list (errors r) ''OVERHEAT'')
                  \<and> length (ofType ''ERROR'' (newEvents w (tick now w))) = 1
                  \<and> Type (last (events (tick now w))) = ''ERROR''
                  \<and> OccurredAt (last (events (tick now w))) = UTC now)"
    by auto
next
  assume "\<not> running r"
  with assms(1-3) have "(\<exists>r'. furnace_state (tick now w) = Some r' \<and> errors r' = errors r \<and> \<not> running r')
       \<and> events (tick now w) = events w"
    by (rule tick_stopped_quiet)
  then show "(\<exists>r'. furnace_state (tick now w) = Some r' \<and> errors r' = errors r)
            \<and> events (tick now w) = events w"
    by blast
qed

lemma example_cool_tick1:
  "tick (after 2000000000) (worldWith (exampleRow ''COOL'' 2000 0 0 True)) =
  \<lparr>furnace_state = Some \<lparr>mode = ''COOL'', temp_c = 1990, target_c = 0, remaining_s = 0,
        errors = [''OVERHEAT''], running = True,
        updated_at = \<lparr>ns = 1002000000000, loc = LocUTC\<rparr>\<rparr>,
   saves = [\<lparr>ID = 1, Mode = ''COOL'', CurrentTempC = 1990, TargetTempC = 0,
             RemainingSeconds = 0, ErrorCodes = [''OVERHEAT''], IsRunning = True,
             UpdatedAt = \<lparr>ns = 1002000000000, loc = LocUTC\<rparr>\<rparr>],
   events = [\<lparr>EventID = 0, OccurredAt = \<lparr>ns = 1002000000000, loc = LocUTC\<rparr>,
              Type = ''ERROR'', Description = ''Overheat detected'',
              Metadata = Some [(''temp_c'', AFloat 1990), (''max_safe'', AFloat 1000),
                               (''mode'', AString ''COOL''), (''isRunning'', ABool True)]\<rparr>],
   clock = \<lparr>ns = 1000000000000, loc = LocLocal\<rparr>, uuid_next = 1,
   loadErr = False, saveErr = False, appendErr = False\<rparr>"
  by (simp add: tick_unfold example_defs sim_consts Let_def)

lemma example_elapsed:
  "Seconds (Sub (after 2000000000) (UTC (updated_at (exampleRow m a b c d)))) = 2"
  by (simp add: example_defs Seconds_def Sub_def minDuration_def maxDuration_def UTC_def)

theorem running_tick_flags_overheat_witness:
  "\<not> loadErr (worldWith (exampleRow ''COOL'' 2000 0 0 True))
   \<and> \<not> saveErr (worldWith (exampleRow ''COOL'' 2000 0 0 True))
   \<and> running (exampleRow ''COOL'' 2000 0 0 True)
   \<and> 1 \<le> Seconds (Sub (after 2000000000)
                  (UTC (updated_at (exampleRow ''COOL'' 2000 0 0 True))))
   \<and> (\<exists>r'. furnace_state (tick (after 2000000000)
                (worldWith (exampleRow ''COOL'' 2000 0 0 True))) = Some r'
          \<and> MaxSafeC < temp_c r' \<and> errors r' = [''OVERHEAT''])
   \<and> length (ofType ''ERROR''
        (newEvents (worldWith (exampleRow ''COOL'' 2000 0 0 True))
           (tick (after 2000000000) (worldWith (exampleRow ''COOL'' 2000 0 0 True))))) = 1"
proof -
  let ?r = "exampleRow ''COOL'' 2000 0 0 True"
  have h: "\<not> loadErr (worldWith ?r)" "\<not> saveErr (worldWith ?r)"
    "furnace_state (worldWith ?r) = Some ?r"
    "1 \<le> Seconds (Sub (after 2000000000) (UTC (updated_at ?r)))"
    by (simp_all add: example_elapsed) (simp_all add: example_defs)
  have run: "running ?r" by (simp add: example_defs)
  have hot: "furnace_state (tick (after 2000000000) (worldWith ?r)) = Some r' \<Longrightarrow>
      MaxSafeC < temp_c r' \<and> errors r' = [''OVERHEAT'']" for r'
    by (auto simp add: example_cool_tick1 MaxSafeC_def)
  from running_tick_flags_overheat [OF h] run hot h(1,2,4) show ?thesis
    by auto
qed

text \<open>
  The claim as stated fails for a state that is not running: a stopped furnace at 1500
  degrees drifts to 1499 in a two-second tick, still above the threshold, and the tick
  neither sets OVERHEAT nor appends an event.
\<close>

theorem stopped_tick_skips_hazard_check:
  "\<not> running (exampleRow ''STANDBY'' 1500 0 0 False)
   \<and> MaxSafeC < temp_c (exampleRow ''STANDBY'' 1500 0 0 False)
   \<and> Seconds (Sub (after 2000000000)
        (UTC (updated_at (exampleRow ''STANDBY'' 1500 0 0 False)))) = 2
   \<and> furnace_state (tick (after 2000000000)
        (worldWith (exampleRow ''STANDBY'' 1500 0 0 False))) =
       Some \<lparr>mode = ''STANDBY'', temp_c = 1499, target_c = 0, remaining_s = 0, errors = [],
             running = False, updated_at = \<lparr>ns = 1002000000000, loc = LocUTC\<rparr>\<rparr>
   \<and> events (tick (after 2000000000)
        (worldWith (exampleRow ''STANDBY'' 1500 0 0 False))) = []"
  by (simp add: tick_unfold example_defs sim_consts Let_def)

section \<open>Two hot ticks in a row\<close>

lemma example_cool_tick2:
  "tick (after 4000000000) (tick (after 2000000000)
     (worldWith (exampleRow ''COOL'' 2000 0 0 True))) =
  \<lparr>furnace_state = Some \<lparr>mode = ''COOL'', temp_c = 1980, target_c = 0, remaining_s = 0,
        errors = [''OVERHEAT''], running = True,
        updated_at = \<lparr>ns = 1004000000000, loc = LocUTC\<rparr>\<rparr>,
   saves = [\<lparr>ID = 1, Mode = ''COOL'', CurrentTempC = 1990, TargetTempC = 0,
             RemainingSeconds = 0, ErrorCodes = [''OVERHEAT''], IsRunning = True,
             UpdatedAt = \<lparr>ns = 1002000000000, loc = LocUTC\<rparr>\<rparr>,
            \<lparr>ID = 1, Mode = ''COOL'', CurrentTempC = 1980, TargetTempC = 0,
             RemainingSeconds = 0, ErrorCodes = [''OVERHEAT''], IsRunning = True,
             UpdatedAt = \<lparr>ns = 1004000000000, loc = LocUTC\<rparr>\<rparr>],
   events = [\<lparr>EventID = 0, OccurredAt = \<lparr>ns = 1002000000000, loc = LocUTC\<rparr>,
              Type = ''ERROR'', Description = ''Overheat detected'',
              Metadata = Some [(''temp_c'', AFloat 1990), (''max_safe'', AFloat 1000),
                               (''mode'', AString ''COOL''), (''isRunning'', ABool True)]\<rparr>,
             \<lparr>EventID = 1, OccurredAt = \<lparr>ns = 1004000000000, loc = LocUTC\<rparr>,
              Type = ''ERROR'', Description = ''Overheat detected'',
              Metadata = Some [(''temp_c'', AFloat 1980), (''max_safe'', AFloat 1000),
                               (''mode'', AString ''COOL''), (''isRunning'', ABool True)]\<rparr>],
   clock = \<lparr>ns = 1000000000000, loc = LocLocal\<rparr>, uuid_next = 2,
   loadErr = False, saveErr = False, appendErr = False\<rparr>"
  unfolding example_cool_tick1
  by (simp add: tick_unfold example_defs sim_consts Let_def)

text \<open>
  Claim C4. Take a running state whose error codes hold OVERHEAT at most once, a working
  store, and two consecutive ticks, each at least one second after the update before it,
  after each of which the stored temperature is above 1000 degrees. Then after both
  ticks the stored error codes hold OVERHEAT exactly once (the second tick leaves the
  codes as the first left them), and exactly two of the events appended by the two ticks
  are ERROR events. For the detection alone: run twice on a hot state without the code,
  it reports a change the first time only, adds OVERHEAT once and appends two events,
  both ERROR.
\<close>

theorem two_hot_ticks:
  assumes "\<not> loadErr w" "\<not> saveErr w" "furnace_state w = Some r" "running r"
    "count_list (errors r) ''OVERHEAT'' \<le> 1"
    "1 \<le> Seconds (Sub now1 (UTC (updated_at r)))"
    "furnace_state (tick now1 w) = Some r1" "MaxSafeC < temp_c r1"
    "1 \<le> Seconds (Sub now2 (UTC (updated_at r1)))"
    "furnace_state (tick now2 (tick now1 w)) = Some r2" "MaxSafeC < temp_c r2"
  shows "count_list (errors r2) ''OVERHEAT'' = 1 \<and> errors r2 = errors r1
       \<and> length (ofType ''ERROR'' (newEvents w (tick now2 (tick now1 w)))) = 2
       \<and> (MaxSafeC < CurrentTempC st \<and> ''OVERHEAT'' \<notin> set (ErrorCodes st) \<longrightarrow>
            (case detectAndLogOverheat w' st t1 of
               (c1, st1, w1) \<Rightarrow>
                 (case detectAndLogOverheat w1 st1 t2 of
                    (c2, st2, w2) \<Rightarrow>
                      c1 \<and> \<not> c2 \<and> ErrorCodes st2 = ErrorCodes st @ [''OVERHEAT'']
                      \<and> length (newEvents w' w2) = 2
                      \<and> ofType ''ERROR'' (newEvents w' w2) = newEvents w' w2)))"
proof -
  from tick_running_hazard [OF assms(1-4) assms(6)] assms(7,8) obtain es1 where
    run1: "running r1"
    and es1: "events (tick now1 w) = events w @ es1" "length (ofType ''ERROR'' es1) = 1"
    and codes1: "errors r1 = (if ''OVERHEAT'' \<notin> set (errors r)
                  then errors r @ [''OVERHEAT''] else errors r)"
    by auto
  have flags: "\<not> loadErr (tick now1 w)" "\<not> saveErr (tick now1 w)"
    using assms(1,2) tick_frame [of now1 w] by simp_all
  from tick_running_hazard [OF flags assms(7) run1 assms(9)] assms(10,11) obtain es2 where
    es2: "events (tick now2 (tick now1 w)) = events (tick now1 w) @ es2"
      "length (ofType ''ERROR'' es2) = 1"
    and codes2: "errors r2 = (if ''OVERHEAT'' \<notin> set (errors r1)
                  then errors r1 @ [''OVERHEAT''] else errors r1)"
    by auto
  have in1: "''OVERHEAT'' \<in> set (errors r1)"
    using codes1 by (simp split: if_splits)
  with codes2 have same: "errors r2 = errors r1" by simp
  have "count_list (errors r1) ''OVERHEAT'' = 1"
  proof (cases "''OVERHEAT'' \<in> set (errors r)")
    case True
    then have "count_list (errors r) ''OVERHEAT'' \<noteq> 0" by (simp add: count_list_0_iff)
    with assms(5) True codes1 show ?thesis by simp
  next
    case False
    then have "count_list (errors r) ''OVERHEAT'' = 0" by (simp add: count_list_0_iff)
    with False codes1 show ?thesis by simp
  qed
  moreover have "newEvents w (tick now2 (tick now1 w)) = es1 @ es2"
    using es1(1) es2(1) by (simp add: newEvents_def)
  then have "length (ofType ''ERROR'' (newEvents w (tick now2 (tick now1 w)))) = 2"
    using es1(2) es2(2) by (simp add: ofType_def)
  moreover have "MaxSafeC < CurrentTempC st \<and> ''OVERHEAT'' \<notin> set (ErrorCodes st) \<longrightarrow>
            (case detectAndLogOverheat w' st t1 of
               (c1, st1, w1) \<Rightarrow>
                 (case detectAndLogOverheat w1 st1 t2 of
                    (c2, st2, w2) \<Rightarrow>
                      c1 \<and> \<not> c2 \<and> ErrorCodes st2 = ErrorCodes st @ [''OVERHEAT'']
                      \<and> length (newEvents w' w2) = 2
                      \<and> ofType ''ERROR'' (newEvents w' w2) = newEvents w' w2))"
    by (simp add: detect_hot flagged_sel newEvents_def ofType_def overheatEvent_def)
  ultimately show ?thesis using same by simp
qed

theorem two_hot_ticks_witness:
  "\<not> loadErr (worldWith (exampleRow ''COOL'' 2000 0 0 True))
   \<and> \<not> saveErr (worldWith (exampleRow ''COOL'' 2000 0 0 True))
   \<and> running (exampleRow ''COOL'' 2000 0 0 True)
   \<and> count_list (errors (exampleRow ''COOL'' 2000 0 0 True)) ''OVERHEAT'' \<le> 1
   \<and> (\<exists>r2. furnace_state (tick (after 4000000000) (tick (after 2000000000)
                (worldWith (exampleRow ''COOL'' 2000 0 0 True)))) = Some r2
          \<and> MaxSafeC < temp_c r2 \<and> count_list (errors r2) ''OVERHEAT'' = 1)
   \<and> length (ofType ''ERROR''
        (newEvents (worldWith (exampleRow ''COOL'' 2000 0 0 True))
           (tick (after 4000000000) (tick (after 2000000000)
              (worldWith (exampleRow ''COOL'' 2000 0 0 True)))))) = 2"
proof -
  let ?r = "exampleRow ''COOL'' 2000 0 0 True"
  let ?r1 = "\<lparr>mode = ''COOL'', temp_c = 1990, target_c = 0, remaining_s = 0,
        errors = [''OVERHEAT''], running = True,
        updated_at = \<lparr>ns = 1002000000000, loc = LocUTC\<rparr>\<rparr>"
  let ?r2 = "\<lparr>mode = ''COOL'', temp_c = 1980, target_c = 0, remaining_s = 0,
        errors = [''OVERHEAT''], running = True,
        updated_at = \<lparr>ns = 1004000000000, loc = LocUTC\<rparr>\<rparr>"
  have h: "\<not> loadErr (worldWith ?r)" "\<not> saveErr (worldWith ?r)"
    "furnace_state (worldWith ?r) = Some ?r" "running ?r"
    "count_list (errors ?r) ''OVERHEAT'' \<le> 1"
    "1 \<le> Seconds (Sub (after 2000000000) (UTC (updated_at ?r)))"
    by (simp_all add: example_elapsed) (simp_all add: example_defs)
  have t1: "furnace_state (tick (after 2000000000) (worldWith ?r)) = Some ?r1"
    "MaxSafeC < temp_c ?r1"
    "1 \<le> Seconds (Sub (after 4000000000) (UTC (updated_at ?r1)))"
    by (simp_all add: example_cool_tick1 MaxSafeC_def)
      (simp add: example_defs Seconds_def Sub_def minDuration_def maxDuration_def UTC_def)
  have t2: "furnace_state (tick (after 4000000000) (tick (after 2000000000) (worldWith ?r)))
      = Some ?r2" "MaxSafeC < temp_c ?r2"
    by (simp_all add: example_cool_tick2 MaxSafeC_def)
  from two_hot_ticks [OF h t1 t2] h(1,2,4,5) t2 show ?thesis
    by simp
qed

section \<open>Cooling and the ambient floor\<close>

lemma cooling_tick:
  assumes "furnace_state w = Some r" "\<not> running r \<or> mode r \<noteq> ModeHeat"
  shows "\<exists>r'. furnace_state (tick now w) = Some r'
           \<and> (temp_c r' = temp_c r \<or> AmbientC < temp_c r \<and> AmbientC \<le> temp_c r')
           \<and> (temp_c r \<le> AmbientC \<longrightarrow> tick now w = w)"
proof -
  define st where "st = (scanRow r)\<lparr>UpdatedAt := UTC (updated_at r)\<rparr>"
  define e where "e = Seconds (Sub now (UTC (updated_at r)))"
  have st: "CurrentTempC st = temp_c r" "Mode st = mode r"
    by (simp_all add: st_def scanRow_sel)
  show ?thesis
  proof (cases "loadErr w \<or> e < 1")
    case True
    then have "tick now w = w"
      using assms(1) by (cases "loadErr w") (auto simp: tick_loadErr tick_early e_def)
    with assms(1) show ?thesis by simp
  next
    case False
    then have ok: "\<not> loadErr w" "1 \<le> Seconds (Sub now (UTC (updated_at r)))"
      by (simp_all add: e_def)
    show ?thesis
    proof (cases "running r")
      case stopped: False
      have tk: "tick now w =
          (case handleCooling st e StandbyCoolPerSec of
             (changed, st1) \<Rightarrow>
               if changed then snd (Save (st1\<lparr>UpdatedAt := UTC now\<rparr>) w) else w)"
        using tick_stopped [OF ok(1) assms(1) stopped ok(2)]
        by (simp add: driftToAmbient_eq st_def e_def)
      show ?thesis
      proof (cases "saveErr w")
        case True
        with assms(1) st show ?thesis
          by (simp add: tk handleCooling_eq Save_row_fail)
      next
        case False
        with assms(1) st show ?thesis
          by (simp add: tk handleCooling_eq Save_row rowOf_sel maxFloat_ge)
      qed
    next
      case True
      with assms(2) have cool: "Mode st \<noteq> ModeHeat" by (simp add: st)
      define rate where
        "rate = (if Mode st = ModeCool then RampDownCPerSec else StandbyCoolPerSec)"
      have ms: "modeSwitch w st e now =
          (fst (handleCooling st e rate), snd (handleCooling st e rate), w)"
        unfolding rate_def using cool by (rule modeSwitch_cool)
      have tk: "tick now w =
          (case whenRunning w st e now of
             (changed, st2, w2) \<Rightarrow>
               if changed then snd (Save (st2\<lparr>UpdatedAt := UTC now\<rparr>) w2) else w2)"
        unfolding st_def e_def using ok(1) assms(1) True ok(2) by (rule tick_running)
      have amb: "\<not> MaxSafeC < AmbientC" by (simp add: sim_consts)
      show ?thesis
      proof (cases "saveErr w")
        case True
        with assms(1) st amb show ?thesis
          by (auto simp add: tk whenRunning_eq [OF ms] handleCooling_eq Save_row_fail)
      next
        case False
        with assms(1) st amb show ?thesis
          by (auto simp add: tk whenRunning_eq [OF ms] handleCooling_eq Save_row rowOf_sel
              flagged_sel maxFloat_ge)
      qed
    qed
  qed
qed

text \<open>
  Claim C5, as the code has it. On every tick of a state that is not running or whose
  mode is not HEAT (COOL, STANDBY or unknown), for every tick time, cooling never takes
  the temperature below ambient: a stored temperature at or above 25 degrees is at
  or above 25 degrees after the tick, and a state at or below ambient is left
  unchanged by the tick, so a temperature below ambient stays where it is. The same
  holds of \<open>handleCooling\<close> and \<open>driftToAmbient\<close> for every elapsed time and rate.
\<close>

theorem cooling_floored_at_ambient:
  assumes "furnace_state w = Some r" "\<not> running r \<or> mode r \<noteq> ModeHeat"
  shows "(\<exists>r'. furnace_state (tick now w) = Some r'
            \<and> (AmbientC \<le> temp_c r \<longrightarrow> AmbientC \<le> temp_c r')
            \<and> (temp_c r \<le> AmbientC \<longrightarrow> temp_c r' = temp_c r))
       \<and> (temp_c r \<le> AmbientC \<longrightarrow> tick now w = w)
       \<and> (AmbientC \<le> CurrentTempC st \<longrightarrow>
            AmbientC \<le> CurrentTempC (snd (handleCooling st e rate))
            \<and> AmbientC \<le> CurrentTempC (snd (driftToAmbient st e)))
       \<and> (CurrentTempC st \<le> AmbientC \<longrightarrow>
            handleCooling st e rate = (False, st) \<and> driftToAmbient st e = (False, st))"
proof -
  from cooling_tick [OF assms, of now] obtain r' where
    "furnace_state (tick now w) = Some r'"
    "temp_c r' = temp_c r \<or> AmbientC < temp_c r \<and> AmbientC \<le> temp_c r'"
    "temp_c r \<le> AmbientC \<longrightarrow> tick now w = w"
    by blast
  then have "(\<exists>r'. furnace_state (tick now w) = Some r'
            \<and> (AmbientC \<le> temp_c r \<longrightarrow> AmbientC \<le> temp_c r')
            \<and> (temp_c r \<le> AmbientC \<longrightarrow> temp_c r' = temp_c r))
       \<and> (temp_c r \<le> AmbientC \<longrightarrow> tick now w = w)"
    by auto
  moreover have "AmbientC \<le> CurrentTempC st \<longrightarrow>
            AmbientC \<le> CurrentTempC (snd (handleCooling st e rate))
            \<and> AmbientC \<le> CurrentTempC (snd (driftToAmbient st e))"
    by (simp add: driftToAmbient_eq handleCooling_eq maxFloat_ge)
  moreover have "CurrentTempC st \<le> AmbientC \<longrightarrow>
            handleCooling st e rate = (False, st) \<and> driftToAmbient st e = (False, st)"
    by (simp add: driftToAmbient_eq handleCooling_eq)
  ultimately show ?thesis by simp
qed

theorem cooling_floored_at_ambient_witness:
  "furnace_state (worldWith (exampleRow ''COOL'' 26 0 0 True))
     = Some (exampleRow ''COOL'' 26 0 0 True)
   \<and> mode (exampleRow ''COOL'' 26 0 0 True) \<noteq> ModeHeat
   \<and> AmbientC \<le> temp_c (exampleRow ''COOL'' 26 0 0 True)
   \<and> (\<exists>r'. furnace_state (tick (after 2000000000)
               (worldWith (exampleRow ''COOL'' 26 0 0 True))) = Some r'
          \<and> AmbientC \<le> temp_c r')"
proof -
  let ?r = "exampleRow ''COOL'' 26 0 0 True"
  have h: "furnace_state (worldWith ?r) = Some ?r" "\<not> running ?r \<or> mode ?r \<noteq> ModeHeat"
    by (simp_all add: example_defs ModeHeat_def)
  have a: "AmbientC \<le> temp_c ?r" "mode ?r \<noteq> ModeHeat"
    by (simp_all add: example_defs sim_consts)
  from cooling_floored_at_ambient [OF h, where now = "after 2000000000", THEN conjunct1]
    h(1) a
  show ?thesis by auto
qed

text \<open>
  The claim as stated fails for a state below ambient. \<open>Stop\<close> on an empty store
  persists a STANDBY row whose temperature is 0, and a tick five seconds later leaves it
  at 0; a running COOL state at 10 degrees likewise stays at 10.
\<close>

theorem tick_leaves_temperature_below_ambient:
  "furnace_state (tick (after 5000000000) (snd (Stop emptyWorld))) =
     Some \<lparr>mode = ''STANDBY'', temp_c = 0, target_c = 0, remaining_s = 0, errors = [],
           running = False, updated_at = \<lparr>ns = 1000000000000, loc = LocUTC\<rparr>\<rparr>
   \<and> furnace_state (tick (after 5000000000) (worldWith (exampleRow ''COOL'' 10 0 0 True))) =
     Some \<lparr>mode = ''COOL'', temp_c = 10, target_c = 0, remaining_s = 0, errors = [],
           running = True, updated_at = \<lparr>ns = 1000000000000, loc = LocUTC\<rparr>\<rparr>
   \<and> (0 :: real) < AmbientC \<and> (10 :: real) < AmbientC"
  by (simp add: tick_unfold Stop_def example_defs sim_consts Let_def)

section \<open>Writes and changes\<close>







section \<open>The control API\<close>

lemmas control_unfold =
  Stop_def Start_def SetMode_def validateMode_def Load_def Save_def scanRow_def rowOf_def
  furnaceStateRowID_def NewString_def Append_def UTC_def IsZero_def Now_def zeroState_def
  zeroTime_def

text \<open>
  Claim C2, as the code has it. A call of \<open>SetMode\<close> with mode HEAT returns an error
  and leaves the world as it was unless the target temperature is at least ambient (25
  degrees; the target may equal ambient), at most max-safe (1000 degrees), and the
  duration is positive; targets 20 and 1500 with duration 10 fail with the
  below-ambient and the exceeds-max-safe error. A COOL or STANDBY call on a running
  furnace with a working store stores the new mode with target and remaining time 0.
\<close>

theorem SetMode_heat_validation:
  "(ModeParams.Mode p = ''HEAT''
      \<and> \<not> (AmbientC \<le> ModeParams.TargetTempC p \<and> ModeParams.TargetTempC p \<le> MaxSafeC
             \<and> 0 < DurationSec p)
      \<longrightarrow> fst (SetMode p w) \<noteq> None \<and> snd (SetMode p w) = w)
   \<and> SetMode \<lparr>ModeParams.Mode = ''HEAT'', TargetTempC = 20, DurationSec = 10\<rparr> w
       = (Some (errBelowAmbient 20 25), w)
   \<and> SetMode \<lparr>ModeParams.Mode = ''HEAT'', TargetTempC = 1500, DurationSec = 10\<rparr> w
       = (Some (errExceedsMaxSafe 1500 1000), w)
   \<and> ((ModeParams.Mode p = ''COOL'' \<or> ModeParams.Mode p = ''STANDBY'')
        \<and> \<not> loadErr w \<and> \<not> saveErr w \<and> furnace_state w = Some r \<and> running r
      \<longrightarrow> furnace_state (snd (SetMode p w)) =
            Some (r\<lparr>mode := ModeParams.Mode p, target_c := 0, remaining_s := 0,
                    updated_at := UTC (clock w)\<rparr>))"
proof (intro conjI)
  show "ModeParams.Mode p = ''HEAT''
      \<and> \<not> (AmbientC \<le> ModeParams.TargetTempC p \<and> ModeParams.TargetTempC p \<le> MaxSafeC
             \<and> 0 < DurationSec p)
      \<longrightarrow> fst (SetMode p w) \<noteq> None \<and> snd (SetMode p w) = w"
    by (auto simp add: SetMode_def validateMode_def sim_consts)
next
  show "SetMode \<lparr>ModeParams.Mode = ''HEAT'', TargetTempC = 20, DurationSec = 10\<rparr> w
       = (Some (errBelowAmbient 20 25), w)"
    by (simp add: SetMode_def validateMode_def sim_consts)
next
  show "SetMode \<lparr>ModeParams.Mode = ''HEAT'', TargetTempC = 1500, DurationSec = 10\<rparr> w
       = (Some (errExceedsMaxSafe 1500 1000), w)"
    by (simp add: SetMode_def validateMode_def sim_consts)
next
  show "(ModeParams.Mode p = ''COOL'' \<or> ModeParams.Mode p = ''STANDBY'')
        \<and> \<not> loadErr w \<and> \<not> saveErr w \<and> furnace_state w = Some r \<and> running r
      \<longrightarrow> furnace_state (snd (SetMode p w)) =
            Some (r\<lparr>mode := ModeParams.Mode p, target_c := 0, remaining_s := 0,
                    updated_at := UTC (clock w)\<rparr>)"
    by (auto simp add: control_unfold Let_def)
qed

theorem SetMode_heat_validation_witness:
  "fst (SetMode \<lparr>ModeParams.Mode = ''HEAT'', TargetTempC = 24, DurationSec = 10\<rparr>
         (snd (Start emptyWorld))) \<noteq> None
   \<and> snd (SetMode \<lparr>ModeParams.Mode = ''HEAT'', TargetTempC = 24, DurationSec = 10\<rparr>
         (snd (Start emptyWorld))) = snd (Start emptyWorld)
   \<and> fst (SetMode \<lparr>ModeParams.Mode = ''HEAT'', TargetTempC = 100, DurationSec = 0\<rparr>
         (snd (Start emptyWorld))) \<noteq> None
   \<and> furnace_state (snd (SetMode \<lparr>ModeParams.Mode = ''COOL'', TargetTempC = 100,
         DurationSec = 5\<rparr> (worldWith (exampleRow ''HEAT'' 300 500 60 True)))) =
       Some \<lparr>mode = ''COOL'', temp_c = 300, target_c = 0, remaining_s = 0, errors = [],
             running = True, updated_at = \<lparr>ns = 1000000000000, loc = LocUTC\<rparr>\<rparr>"
proof -
  let ?p1 = "\<lparr>ModeParams.Mode = ''HEAT'', TargetTempC = 24, DurationSec = 10\<rparr>"
  let ?p2 = "\<lparr>ModeParams.Mode = ''HEAT'', TargetTempC = 100, DurationSec = 0\<rparr>"
  let ?p3 = "\<lparr>ModeParams.Mode = ''COOL'', TargetTempC = 100, DurationSec = 5\<rparr>"
  let ?r = "exampleRow ''HEAT'' 300 500 60 True"
  have "fst (SetMode ?p1 (snd (Start emptyWorld))) \<noteq> None
      \<and> snd (SetMode ?p1 (snd (Start emptyWorld))) = snd (Start emptyWorld)"
    using SetMode_heat_validation [where p = ?p1 and w = "snd (Start emptyWorld)",
        THEN conjunct1]
    by (simp add: sim_consts)
  moreover have "fst (SetMode ?p2 (snd (Start emptyWorld))) \<noteq> None"
    using SetMode_heat_validation [where p = ?p2 and w = "snd (Start emptyWorld)",
        THEN conjunct1]
    by (simp add: sim_consts)
  moreover have "furnace_state (snd (SetMode ?p3 (worldWith ?r))) =
       Some \<lparr>mode = ''COOL'', temp_c = 300, target_c = 0, remaining_s = 0, errors = [],
             running = True, updated_at = \<lparr>ns = 1000000000000, loc = LocUTC\<rparr>\<rparr>"
    using SetMode_heat_validation [where p = ?p3 and w = "worldWith ?r" and r = ?r,
        THEN conjunct2, THEN conjunct2, THEN conjunct2]
    by (simp add: example_defs UTC_def)
  ultimately show ?thesis by simp
qed

text \<open>
  The claim as stated fails at the boundary: a HEAT call whose target equals ambient,
  so is not strictly greater, is accepted on a running furnace and stored.
\<close>

theorem SetMode_accepts_target_at_ambient:
  "\<not> AmbientC < 25
   \<and> fst (SetMode \<lparr>ModeParams.Mode = ''HEAT'', TargetTempC = 25, DurationSec = 10\<rparr>
           (snd (Start emptyWorld))) = None
   \<and> furnace_state (snd (SetMode \<lparr>ModeParams.Mode = ''HEAT'', TargetTempC = 25,
           DurationSec = 10\<rparr> (snd (Start emptyWorld)))) =
       Some \<lparr>mode = ''HEAT'', temp_c = 25, target_c = 25, remaining_s = 10, errors = [],
             running = True, updated_at = \<lparr>ns = 1000000000000, loc = LocUTC\<rparr>\<rparr>"
  by (simp add: control_unfold example_defs sim_consts Let_def)

text \<open>
  Claim C6. With a working store, two consecutive calls of \<open>Stop\<close> (the clock may move
  between them) each leave the stored state not running, in STANDBY, with target and
  remaining time 0, and otherwise as it was (temperature 0 and no error codes when
  there was no state); the two stored states differ in the timestamp only. Each call
  saves a state whose id is 1 when no state existed before, and appends one STOP event,
  so the log grows by exactly two STOP events; each call returns no error when the
  append succeeds.
\<close>

theorem Stop_twice:
  assumes "\<not> loadErr w" "\<not> saveErr w"
  shows "furnace_state (snd (Stop w)) =
           Some \<lparr>mode = ''STANDBY'',
                 temp_c = (case furnace_state w of None \<Rightarrow> 0 | Some r \<Rightarrow> temp_c r),
                 target_c = 0, remaining_s = 0,
                 errors = (case furnace_state w of None \<Rightarrow> [] | Some r \<Rightarrow> errors r),
                 running = False, updated_at = UTC (clock w)\<rparr>
       \<and> furnace_state (snd (Stop ((snd (Stop w))\<lparr>clock := t2\<rparr>))) =
           Some \<lparr>mode = ''STANDBY'',
                 temp_c = (case furnace_state w of None \<Rightarrow> 0 | Some r \<Rightarrow> temp_c r),
                 target_c = 0, remaining_s = 0,
                 errors = (case furnace_state w of None \<Rightarrow> [] | Some r \<Rightarrow> errors r),
                 running = False, updated_at = UTC t2\<rparr>
       \<and> events (snd (Stop ((snd (Stop w))\<lparr>clock := t2\<rparr>))) =
           events w @
           [\<lparr>EventID = uuid_next w, OccurredAt = UTC (clock w), Type = ''STOP'',
             Description = ''Furnace stopped'', Metadata = None\<rparr>,
            \<lparr>EventID = Suc (uuid_next w), OccurredAt = UTC t2, Type = ''STOP'',
             Description = ''Furnace stopped'', Metadata = None\<rparr>]
       \<and> (furnace_state w = None \<longrightarrow>
            saves (snd (Stop w)) = saves w @
              [\<lparr>ID = 1, Mode = ''STANDBY'', CurrentTempC = 0, TargetTempC = 0,
                RemainingSeconds = 0, ErrorCodes = [], IsRunning = False,
                UpdatedAt = UTC (clock w)\<rparr>])
       \<and> (\<not> appendErr w \<longrightarrow>
            fst (Stop w) = None \<and> fst (Stop ((snd (Stop w))\<lparr>clock := t2\<rparr>)) = None)"
  using assms by (cases "furnace_state w") (simp_all add: control_unfold Let_def)

theorem Stop_twice_witness:
  "\<not> loadErr emptyWorld \<and> \<not> saveErr emptyWorld
   \<and> furnace_state (snd (Stop ((snd (Stop emptyWorld))\<lparr>clock := after 1000000000\<rparr>))) =
       Some \<lparr>mode = ''STANDBY'', temp_c = 0, target_c = 0, remaining_s = 0, errors = [],
             running = False, updated_at = UTC (after 1000000000)\<rparr>
   \<and> map Type (events (snd (Stop ((snd (Stop emptyWorld))\<lparr>clock := after 1000000000\<rparr>))))
       = [''STOP'', ''STOP'']"
proof -
  have h: "\<not> loadErr emptyWorld" "\<not> saveErr emptyWorld"
    by (simp_all add: example_defs)
  have e: "furnace_state emptyWorld = None" "events emptyWorld = []"
    by (simp_all add: example_defs)
  from Stop_twice [OF h, of "after 1000000000"] h e show ?thesis by simp
qed

end
